theory Spec2Isabelle
  imports Complex_Main "HOL-Library.Multiset"
begin

section \<open>Liveness challenge engine\<close>

text \<open>
  A shallow embedding of \<^verbatim>\<open>src/engine/utils.js\<close> and
  \<^verbatim>\<open>src/engine/LivenessEngine.js\<close>.

  JavaScript numbers are modelled as \<^typ>\<open>real\<close>: comparisons and arithmetic are exact,
  there is no rounding, no NaN and no infinity. Where the source divides by a value that
  may be zero the model says what it does. Reading an array out of range gives
  \<^verbatim>\<open>undefined\<close>, and reading a field of \<^verbatim>\<open>undefined\<close> throws a TypeError: the
  functions that can throw return a sum, \<open>Inl\<close> the error.

  The engine mutates its private fields and calls out to its callbacks and to the host.
  Each method is a function from the state before to the state after and the list of
  calls it made, in order. What a method reads from outside (the clock, the random
  numbers, the results of the two models) is a parameter. The callbacks object is taken
  to be complete, \<open>onProgress\<close> included, and callbacks do not throw.
\<close>

subsection \<open>Landmarks and metric functions (utils.js)\<close>

datatype point = Point (px: real) (py: real) (pz: real)

datatype error = TypeError | EngineNotLoaded

datatype side = left | right

fun EYE_INDICES :: "side \<Rightarrow> nat list" where
  "EYE_INDICES left = [362, 385, 387, 263, 373, 380]"
| "EYE_INDICES right = [33, 160, 158, 133, 153, 144]"

definition HEAD_POSE_leftCheek :: nat where
  "HEAD_POSE_leftCheek = 234"

definition HEAD_POSE_rightCheek :: nat where
  "HEAD_POSE_rightCheek = 454"

definition HEAD_POSE_chin :: nat where
  "HEAD_POSE_chin = 152"

definition euclideanDistance :: "point \<Rightarrow> point \<Rightarrow> real" where
  "euclideanDistance p1 p2 =
     sqrt ((px p1 - px p2)\<^sup>2 + (py p1 - py p2)\<^sup>2 + (pz p1 - pz p2)\<^sup>2)"

text \<open>
  \<open>calculateEAR\<close> reads six landmarks and passes each to \<open>euclideanDistance\<close>, which
  reads its fields: it throws exactly when one of the six indices is out of range.
\<close>

definition calculateEAR :: "point list \<Rightarrow> side \<Rightarrow> error + real" where
  "calculateEAR landmarks sd =
     (let indices = EYE_INDICES sd in
      if list_all (\<lambda>i. i < length landmarks) indices then
        (let p1 = landmarks ! (indices ! 0);
             p2 = landmarks ! (indices ! 1);
             p3 = landmarks ! (indices ! 2);
             p4 = landmarks ! (indices ! 3);
             p5 = landmarks ! (indices ! 4);
             p6 = landmarks ! (indices ! 5);
             verticalDist1 = euclideanDistance p2 p6;
             verticalDist2 = euclideanDistance p3 p5;
             horizontalDist = euclideanDistance p1 p4
         in if horizontalDist = 0 then Inr 0
            else Inr ((verticalDist1 + verticalDist2) / (2 * horizontalDist)))
      else Inl TypeError)"

definition calculateHeadTurnV2 :: "point list \<Rightarrow> error + real" where
  "calculateHeadTurnV2 landmarks =
     (if HEAD_POSE_leftCheek < length landmarks \<and> HEAD_POSE_rightCheek < length landmarks
         \<and> HEAD_POSE_chin < length landmarks then
        (let leftCheek = landmarks ! HEAD_POSE_leftCheek;
             rightCheek = landmarks ! HEAD_POSE_rightCheek;
             chin = landmarks ! HEAD_POSE_chin;
             leftDepth = pz leftCheek - pz chin;
             rightDepth = pz rightCheek - pz chin;
             faceWidth = euclideanDistance leftCheek rightCheek
         in if faceWidth < 0.1 then Inr 0
            else Inr ((rightDepth - leftDepth) / faceWidth))
      else Inl TypeError)"

text \<open>
  The \<^verbatim>\<open>for\<close> loop of \<open>calculateCosineSimilarity\<close>. It runs only when both lengths are
  equal, so \<open>vecB ! i\<close> is in range whenever \<open>vecA ! i\<close> is.
\<close>

function cosineLoop :: "real list \<Rightarrow> real list \<Rightarrow> nat \<Rightarrow> real \<Rightarrow> real" where
  "cosineLoop vecA vecB i dotProduct =
     (if i < length vecA
      then cosineLoop vecA vecB (i + 1) (dotProduct + vecA ! i * vecB ! i)
      else dotProduct)"
  by pat_completeness auto
termination
  by (relation "measure (\<lambda>(vecA, vecB, i, dotProduct). length vecA - i)") auto

declare cosineLoop.simps [simp del]

text \<open>An absent argument (\<^verbatim>\<open>null\<close> or \<^verbatim>\<open>undefined\<close>) is \<open>None\<close>.\<close>

definition calculateCosineSimilarity :: "real list option \<Rightarrow> real list option \<Rightarrow> real" where
  "calculateCosineSimilarity vecA vecB =
     (case (vecA, vecB) of
        (Some a, Some b) \<Rightarrow> if length a \<noteq> length b then 0 else cosineLoop a b 0 0
      | _ \<Rightarrow> 0)"

subsection \<open>Engine state, configuration and observable actions (LivenessEngine.js)\<close>

datatype challenge = BLINK | TURN_LEFT | TURN_RIGHT | PROCESSING

datatype failure_code = FACE_NOT_FOUND | CHALLENGE_TIMEOUT | RECOGNITION_FAILED | MODEL_LOAD_FAILED

record config =
  blinkEARThreshold :: real
  headTurnThreshold :: real
  challengeTimeout :: real
  targetFPS :: real

definition DEFAULT_CONFIG :: config where
  "DEFAULT_CONFIG =
     \<lparr>blinkEARThreshold = 0.25, headTurnThreshold = 0.4, challengeTimeout = 5000, targetFPS = 30\<rparr>"

text \<open>
  The private fields of the class. \<open>videoElement\<close> and \<open>canvasCtx\<close> hold whether the
  reference is set (truthy); \<open>detectionLoopId\<close> is \<open>None\<close> for \<^verbatim>\<open>null\<close>, and animation
  frame ids are positive, so an id is always truthy.
\<close>

record engine =
  config :: config
  videoElement :: bool
  canvasCtx :: bool
  isReady :: bool
  detectionLoopId :: "nat option"
  isStopped :: bool
  challenges :: "challenge list"
  currentChallengeIndex :: nat
  lastChallengeTime :: real
  isChallengeProcessing :: bool
  hasDetectedOpenEyes :: bool
  lastFrameTime :: real

text \<open>
  What the engine does to the outside: the callbacks it invokes (the SDK turns each into
  the event of the same name) and the host calls it makes.
\<close>

datatype action =
    OnReady
  | OnChallengeChanged challenge
  | OnProgress real "real option"
  | OnSuccess "real list"
  | OnFailure failure_code string
  | RequestAnimationFrame nat
  | CancelAnimationFrame nat
  | ClearRect
  | DrawDebugOverlay
  | FaceMeshSend
  | SetTimeout nat

definition newEngine :: "config \<Rightarrow> engine" where
  "newEngine cfg =
     \<lparr>config = cfg, videoElement = False, canvasCtx = False, isReady = False,
      detectionLoopId = None, isStopped = True, challenges = [], currentChallengeIndex = 0,
      lastChallengeTime = 0, isChallengeProcessing = False, hasDetectedOpenEyes = False,
      lastFrameTime = 0\<rparr>"

text \<open>
  \<open>load\<close>: the two models are external; \<open>loaded\<close> is \<open>Inr ()\<close> when both initialised and
  \<open>Inl message\<close> when something threw.
\<close>

definition load :: "string + unit \<Rightarrow> engine \<Rightarrow> engine \<times> action list" where
  "load loaded s =
     (case loaded of
        Inr _ \<Rightarrow> (s\<lparr>isReady := True\<rparr>, [OnReady])
      | Inl message \<Rightarrow>
          (s, [OnFailure MODEL_LOAD_FAILED
                 (''Failed to load models. Check console for details. Error: '' @ message)]))"

definition stop :: "engine \<Rightarrow> engine \<times> action list" where
  "stop s =
     (let s1 = s\<lparr>isStopped := True\<rparr>;
          cancelled = (case detectionLoopId s1 of
                         Some i \<Rightarrow> [CancelAnimationFrame i]
                       | None \<Rightarrow> []);
          s2 = s1\<lparr>detectionLoopId := None\<rparr>
      in (s2, cancelled @ (if canvasCtx s2 then [ClearRect] else [])))"

subsection \<open>Challenge sequencer\<close>

text \<open>
  \<open>rnd k\<close> is the value of the \<open>k\<close>-th call of \<^verbatim>\<open>Math.random()\<close> in one run of
  \<open>generateChallenges\<close>, a number in \<open>[0, 1)\<close>. The swap writes position \<open>i\<close> first and
  position \<open>j\<close> second, both from the values read before.
\<close>

function shuffleLoop :: "(nat \<Rightarrow> real) \<Rightarrow> nat \<Rightarrow> nat \<Rightarrow> challenge list \<Rightarrow> challenge list" where
  "shuffleLoop rnd k i cs =
     (if i > 0 then
        (let j = nat \<lfloor>rnd k * real (i + 1)\<rfloor>
         in shuffleLoop rnd (k + 1) (i - 1) ((cs[i := cs ! j])[j := cs ! i]))
      else cs)"
  by pat_completeness auto
termination
  by (relation "measure (\<lambda>(rnd, k, i, cs). i)") auto

declare shuffleLoop.simps [simp del]

definition generateChallenges :: "(nat \<Rightarrow> real) \<Rightarrow> challenge list" where
  "generateChallenges rnd =
     (let cs = (if rnd 0 > 0.5 then [BLINK] @ [TURN_LEFT, TURN_RIGHT]
                else [BLINK] @ [TURN_RIGHT, TURN_LEFT])
      in shuffleLoop rnd 1 (length cs - 1) cs)"

subsection \<open>Frame scheduler\<close>

text \<open>
  The remainder operator of JavaScript: the quotient is truncated towards zero, so the
  result has the sign of the dividend.
\<close>

definition js_rem :: "real \<Rightarrow> real \<Rightarrow> real" where
  "js_rem a b =
     a - b * of_int (if 0 \<le> a / b then \<lfloor>a / b\<rfloor> else \<lceil>a / b\<rceil>)"

text \<open>
  \<open>detectionLoop\<close> is asynchronous. When it forwards a frame it awaits
  \<^verbatim>\<open>faceMesh.send\<close>, and only \<open>detectionLoopResume\<close>, the code after the await, registers
  the next tick; otherwise the registration is part of the same call. \<open>now\<close> is
  \<^verbatim>\<open>Date.now()\<close>, \<open>readyState\<close> that of the video element, \<open>rafId\<close> the id that
  \<^verbatim>\<open>requestAnimationFrame\<close> returns. With \<open>targetFPS = 0\<close> the interval is infinite and
  no frame is forwarded.
\<close>

definition detectionLoopResume :: "nat \<Rightarrow> engine \<Rightarrow> engine \<times> action list" where
  "detectionLoopResume rafId s = (s\<lparr>detectionLoopId := Some rafId\<rparr>, [RequestAnimationFrame rafId])"

definition detectionLoop :: "real \<Rightarrow> nat \<Rightarrow> nat \<Rightarrow> engine \<Rightarrow> engine \<times> action list" where
  "detectionLoop now readyState rafId s =
     (if isStopped s \<or> \<not> videoElement s \<or> readyState < 2 then
        (if \<not> isStopped s then detectionLoopResume rafId s else (s, []))
      else
        (let elapsed = now - lastFrameTime s;
             fpsInterval = 1000 / targetFPS (config s)
         in if targetFPS (config s) \<noteq> 0 \<and> elapsed > fpsInterval
            then (s\<lparr>lastFrameTime := now - js_rem elapsed fpsInterval\<rparr>, [FaceMeshSend])
            else detectionLoopResume rafId s))"

subsection \<open>Liveness state machine\<close>

definition failChallenge :: "failure_code \<Rightarrow> string \<Rightarrow> engine \<Rightarrow> engine \<times> action list" where
  "failChallenge code message s =
     (let (s1, a1) = stop s in (s1, a1 @ [OnFailure code message]))"

text \<open>
  The descriptor: the prediction divided by its Euclidean norm when the norm exceeds
  \<open>1e-6\<close>, the prediction itself otherwise.
\<close>

definition tensorNorm :: "real list \<Rightarrow> real" where
  "tensorNorm v = sqrt (\<Sum>x\<leftarrow>v. x\<^sup>2)"

definition normalizedTensor :: "real list \<Rightarrow> real list" where
  "normalizedTensor predictionTensor =
     (let norm = tensorNorm predictionTensor
      in if norm > 1 / 10 ^ 6 then map (\<lambda>x. x / norm) predictionTensor
         else predictionTensor)"

text \<open>
  \<open>completeLiveness\<close>: the embedding model is external. \<open>prediction\<close> is what the
  \<^verbatim>\<open>try\<close> block obtains from it: \<open>Inr\<close> the values of the prediction tensor, or
  \<open>Inl\<close> the message of the error thrown while cropping the frame or predicting. The
  method awaits the tensor data before it reports success; nothing that reaches the
  engine during that wait changes what it reports, and the model runs it as one step.
\<close>

definition completeLiveness :: "string + real list \<Rightarrow> engine \<Rightarrow> engine \<times> action list" where
  "completeLiveness prediction s =
     (let (s1, a1) = stop s;
          a2 = a1 @ [OnChallengeChanged PROCESSING]
      in case prediction of
           Inr predictionTensor \<Rightarrow> (s1, a2 @ [OnSuccess (normalizedTensor predictionTensor)])
         | Inl message \<Rightarrow>
             (let (s2, a3) = failChallenge RECOGNITION_FAILED message s1 in (s2, a2 @ a3)))"

definition moveToNextChallenge :: "real \<Rightarrow> string + real list \<Rightarrow> engine \<Rightarrow> engine \<times> action list" where
  "moveToNextChallenge now prediction s =
     (let s1 = s\<lparr>currentChallengeIndex := currentChallengeIndex s + 1,
                 hasDetectedOpenEyes := False\<rparr>
      in if currentChallengeIndex s1 \<ge> length (challenges s1)
         then completeLiveness prediction s1
         else (s1\<lparr>lastChallengeTime := now, isChallengeProcessing := False\<rparr>,
               [OnChallengeChanged (challenges s1 ! currentChallengeIndex s1)]))"

text \<open>\<^verbatim>\<open>this.#challenges[this.#currentChallengeIndex]\<close>, \<open>None\<close> for \<^verbatim>\<open>undefined\<close>.\<close>

definition currentChallenge :: "engine \<Rightarrow> challenge option" where
  "currentChallenge s =
     (if currentChallengeIndex s < length (challenges s)
      then Some (challenges s ! currentChallengeIndex s) else None)"

definition OPEN_THRESHOLD :: real where
  "OPEN_THRESHOLD = 0.3"

text \<open>
  The \<^verbatim>\<open>switch\<close> of \<open>processChallenge\<close>: the state after it (only the blink latch can
  change), \<open>challengePassed\<close>, \<open>progress\<close> and \<open>rawValue\<close>. A challenge with no case
  leaves the three at their initial values. A quotient by a zero threshold is not a number
  in the source and 0 here; it only reaches the reported progress.
\<close>

definition challengeSwitch ::
  "point list \<Rightarrow> engine \<Rightarrow> error + (engine \<times> bool \<times> real \<times> real option)" where
  "challengeSwitch landmarks s =
     (case currentChallenge s of
        Some BLINK \<Rightarrow>
          (case calculateEAR landmarks left of
             Inl e \<Rightarrow> Inl e
           | Inr leftEAR \<Rightarrow>
               (case calculateEAR landmarks right of
                  Inl e \<Rightarrow> Inl e
                | Inr rightEAR \<Rightarrow>
                    (let rawValue = min leftEAR rightEAR;
                         s1 = (if rawValue > OPEN_THRESHOLD
                               then s\<lparr>hasDetectedOpenEyes := True\<rparr> else s)
                     in Inr (s1,
                             hasDetectedOpenEyes s1 \<and> rawValue < blinkEARThreshold (config s1),
                             0, Some rawValue))))
      | Some TURN_LEFT \<Rightarrow>
          (case calculateHeadTurnV2 landmarks of
             Inl e \<Rightarrow> Inl e
           | Inr turnRatio \<Rightarrow>
               if turnRatio > headTurnThreshold (config s)
               then Inr (s, True, 1, Some turnRatio)
               else Inr (s, False, max 0 (turnRatio / headTurnThreshold (config s)),
                         Some turnRatio))
      | Some TURN_RIGHT \<Rightarrow>
          (case calculateHeadTurnV2 landmarks of
             Inl e \<Rightarrow> Inl e
           | Inr turnRatio \<Rightarrow>
               if turnRatio < - headTurnThreshold (config s)
               then Inr (s, True, 1, Some turnRatio)
               else Inr (s, False, max 0 (turnRatio / - headTurnThreshold (config s)),
                         Some turnRatio))
      | _ \<Rightarrow> Inr (s, False, 0, None))"

fun challengeName :: "challenge option \<Rightarrow> string" where
  "challengeName (Some BLINK) = ''BLINK''"
| "challengeName (Some TURN_LEFT) = ''TURN_LEFT''"
| "challengeName (Some TURN_RIGHT) = ''TURN_RIGHT''"
| "challengeName (Some PROCESSING) = ''PROCESSING''"
| "challengeName None = ''undefined''"

definition processChallenge :: "real \<Rightarrow> point list \<Rightarrow> engine \<Rightarrow> error + (engine \<times> action list)" where
  "processChallenge now landmarks s =
     (if isChallengeProcessing s then Inr (s, [])
      else
        (case challengeSwitch landmarks s of
           Inl e \<Rightarrow> Inl e
         | Inr (s1, challengePassed, progress, rawValue) \<Rightarrow>
             (let clampedProgress = max 0 (min progress 1);
                  a1 = [OnProgress clampedProgress rawValue]
              in if challengePassed
                 then Inr (s1\<lparr>isChallengeProcessing := True\<rparr>, a1 @ [SetTimeout 300])
                 else if now - lastChallengeTime s1 > challengeTimeout (config s1)
                 then (let (s2, a2) =
                             failChallenge CHALLENGE_TIMEOUT
                               (''Challenge timed out: '' @ challengeName (currentChallenge s1)) s1
                       in Inr (s2, a1 @ a2))
                 else Inr (s1, a1))))"

text \<open>
  \<open>drawDebugOverlay\<close> only touches the canvas: it returns at once without a canvas or
  without a face, and otherwise clears the canvas and draws the mesh, recorded as one
  action.
\<close>

definition drawDebugOverlay :: "point list list option \<Rightarrow> engine \<Rightarrow> action list" where
  "drawDebugOverlay landmarksArray s =
     (if canvasCtx s \<and> (case landmarksArray of Some (l # ls) \<Rightarrow> True | _ \<Rightarrow> False)
      then [ClearRect, DrawDebugOverlay] else [])"

text \<open>
  \<open>onFaceMeshResults\<close>: \<open>faces\<close> is \<^verbatim>\<open>results.multiFaceLandmarks\<close>, \<open>None\<close> when
  absent.
\<close>

definition onFaceMeshResults ::
  "real \<Rightarrow> point list list option \<Rightarrow> engine \<Rightarrow> error + (engine \<times> action list)" where
  "onFaceMeshResults now faces s =
     (if isStopped s then Inr (s, [])
      else
        (case faces of
           Some (landmarks # others) \<Rightarrow>
             (case processChallenge now landmarks s of
                Inl e \<Rightarrow> Inl e
              | Inr (s1, a1) \<Rightarrow> Inr (s1, drawDebugOverlay faces s @ a1))
         | _ \<Rightarrow>
             (let s1 = s\<lparr>hasDetectedOpenEyes := False\<rparr>
              in if now - lastChallengeTime s1 > challengeTimeout (config s1)
                 then (let (s2, a2) = failChallenge FACE_NOT_FOUND ''Could not detect a face.'' s1
                       in Inr (s2, drawDebugOverlay faces s @ a2))
                 else Inr (s1, drawDebugOverlay faces s))))"

text \<open>
  \<open>start\<close>: \<open>video\<close> and \<open>canvas\<close> say whether the two arguments are set; \<open>now\<close> and
  \<open>now2\<close> are the two readings of the clock, the second inside the first run of
  \<open>detectionLoop\<close>. The stale id is cancelled but not cleared.
\<close>

definition start ::
  "real \<Rightarrow> (nat \<Rightarrow> real) \<Rightarrow> bool \<Rightarrow> bool \<Rightarrow> real \<Rightarrow> nat \<Rightarrow> nat \<Rightarrow> engine
     \<Rightarrow> error + (engine \<times> action list)" where
  "start now rnd video canvas now2 readyState rafId s =
     (if \<not> isReady s then Inl EngineNotLoaded
      else
        (let s1 = s\<lparr>videoElement := video, canvasCtx := canvas, isStopped := False,
                    isChallengeProcessing := False, currentChallengeIndex := 0,
                    lastChallengeTime := now, hasDetectedOpenEyes := False,
                    lastFrameTime := 0, challenges := generateChallenges rnd\<rparr>;
             a1 = [OnChallengeChanged (challenges s1 ! currentChallengeIndex s1)];
             a2 = (case detectionLoopId s1 of
                     Some i \<Rightarrow> [CancelAnimationFrame i]
                   | None \<Rightarrow> []);
             (s2, a3) = detectionLoop now2 readyState rafId s1
         in Inr (s2, a1 @ a2 @ a3)))"

subsection \<open>Fixtures\<close>

text \<open>The neutral pose of the unit tests: 500 landmarks, both cheeks at the same depth.\<close>

definition neutralPose :: "point list" where
  "neutralPose = (replicate 500 (Point 0 0 0))
     [152 := Point 5 10 0, 234 := Point 0 5 (- 1), 454 := Point 10 5 (- 1)]"

text \<open>An engine after a successful \<open>load\<close>.\<close>

definition readyEngine :: "config \<Rightarrow> engine" where
  "readyEngine cfg = fst (load (Inr ()) (newEngine cfg))"

text \<open>A source of random draws that yields the listed values, then 0.\<close>

definition fixedDraws :: "real list \<Rightarrow> nat \<Rightarrow> real" where
  "fixedDraws rs k = (if k < length rs then rs ! k else 0)"

text \<open>
  A session with \<open>targetFPS = 50\<close> (an interval of 20 ms) started at clock 1000 on a
  ready video: the first run of \<open>detectionLoop\<close> forwards a frame and leaves
  \<open>lastFrameTime = 1000\<close>.
\<close>

definition boundarySession :: engine where
  "boundarySession =
     (case start 1000 (fixedDraws []) True True 1000 4 1 (readyEngine (DEFAULT_CONFIG\<lparr>targetFPS := 50\<rparr>)) of
        Inr (s, a) \<Rightarrow> s
      | Inl e \<Rightarrow> newEngine DEFAULT_CONFIG)"

text \<open>
  The random choices of one run of \<open>generateChallenges\<close> fall into 12 cells: the pairing
  test \<open>rnd 0 > 0.5\<close> (2 outcomes), the first Fisher--Yates index \<open>\<lfloor>rnd 1 * 3\<rfloor>\<close>
  (3 outcomes) and the second \<open>\<lfloor>rnd 2 * 2\<rfloor>\<close> (2 outcomes). \<open>cellDraws\<close> gives draws at
  the centre of a cell, \<open>generateCells\<close> lists the cells, and under uniform draws each
  cell has probability \<open>1/2 * 1/3 * 1/2\<close>.
\<close>

definition cellDraws :: "bool \<Rightarrow> nat \<Rightarrow> nat \<Rightarrow> nat \<Rightarrow> real" where
  "cellDraws pairing j2 j1 =
     fixedDraws [if pairing then 3 / 4 else 1 / 4, [1 / 6, 1 / 2, 5 / 6] ! j2, [1 / 4, 3 / 4] ! j1]"

definition generateCells :: "(bool \<times> nat \<times> nat) list" where
  "generateCells = List.product [True, False] (List.product [0, 1, 2] [0, 1])"

definition generateProbability :: "challenge list \<Rightarrow> real" where
  "generateProbability cs =
     (\<Sum>(pairing, j2, j1)\<leftarrow>generateCells.
        if generateChallenges (cellDraws pairing j2 j1) = cs then (1 / 2) * (1 / 3) * (1 / 2) else 0)"

subsection \<open>The host: calls that reach the engine\<close>

text \<open>
  The engine runs on a single thread and is entered only through the calls below: the
  public methods, the animation frame callback (\<open>detectionLoop\<close>) and its resumption
  after the awaited \<^verbatim>\<open>send\<close>, the face mesh results callback, and the 300 ms timer
  set by \<open>processChallenge\<close>. The host keeps the number of such timers that are set and
  have not fired; a timer fires only if one is pending. A thrown error ends the run.
\<close>

datatype input =
    Load "string + unit"
  | Start real "nat \<Rightarrow> real" bool bool real nat nat
  | Stop
  | AnimationFrame real nat nat
  | SendResolved nat
  | Results real "point list list option"
  | TimerFired real "string + real list"

record host =
  eng :: engine
  timers :: nat

fun step :: "input \<Rightarrow> host \<Rightarrow> error + (host \<times> action list)" where
  "step (Load loaded) h = (let (s, a) = load loaded (eng h) in Inr (h\<lparr>eng := s\<rparr>, a))"
| "step (Start now rnd video canvas now2 readyState rafId) h =
     (case start now rnd video canvas now2 readyState rafId (eng h) of
        Inl e \<Rightarrow> Inl e
      | Inr (s, a) \<Rightarrow> Inr (h\<lparr>eng := s\<rparr>, a))"
| "step Stop h = (let (s, a) = stop (eng h) in Inr (h\<lparr>eng := s\<rparr>, a))"
| "step (AnimationFrame now readyState rafId) h =
     (let (s, a) = detectionLoop now readyState rafId (eng h) in Inr (h\<lparr>eng := s\<rparr>, a))"
| "step (SendResolved rafId) h =
     (let (s, a) = detectionLoopResume rafId (eng h) in Inr (h\<lparr>eng := s\<rparr>, a))"
| "step (Results now faces) h =
     (case onFaceMeshResults now faces (eng h) of
        Inl e \<Rightarrow> Inl e
      | Inr (s, a) \<Rightarrow> Inr (\<lparr>eng = s, timers = timers h + count_list a (SetTimeout 300)\<rparr>, a))"
| "step (TimerFired now prediction) h =
     (if timers h = 0 then Inr (h, [])
      else (let (s, a) = moveToNextChallenge now prediction (eng h)
            in Inr (\<lparr>eng = s, timers = timers h - 1\<rparr>, a)))"

fun run :: "input list \<Rightarrow> host \<Rightarrow> error + (host \<times> action list)" where
  "run [] h = Inr (h, [])"
| "run (i # ins) h =
     (case step i h of
        Inl e \<Rightarrow> Inl e
      | Inr (h1, a1) \<Rightarrow>
          (case run ins h1 of
             Inl e \<Rightarrow> Inl e
           | Inr (h2, a2) \<Rightarrow> Inr (h2, a1 @ a2)))"

subsection \<open>Frames of one challenge\<close>

text \<open>
  \<open>feed\<close> delivers a sequence of results to the callback, each with the clock reading
  at its arrival; nothing else reaches the engine in between, so the frames belong to one
  challenge. \<open>noFace\<close> is the test of \<open>onFaceMeshResults\<close> for a frame without a
  face, and \<open>frameEAR\<close> is the value \<^verbatim>\<open>Math.min(leftEAR, rightEAR)\<close> of a frame with a
  face, when both ratios can be computed.
\<close>

fun feed :: "(real \<times> point list list option) list \<Rightarrow> engine \<Rightarrow> error + (engine \<times> action list)" where
  "feed [] s = Inr (s, [])"
| "feed ((now, faces) # frames) s =
     (case onFaceMeshResults now faces s of
        Inl e \<Rightarrow> Inl e
      | Inr (s1, a1) \<Rightarrow>
          (case feed frames s1 of
             Inl e \<Rightarrow> Inl e
           | Inr (s2, a2) \<Rightarrow> Inr (s2, a1 @ a2)))"

definition noFace :: "point list list option \<Rightarrow> bool" where
  "noFace faces = (case faces of Some (landmarks # others) \<Rightarrow> False | _ \<Rightarrow> True)"

definition frameEAR :: "point list list option \<Rightarrow> real option" where
  "frameEAR faces =
     (case faces of
        Some (landmarks # others) \<Rightarrow>
          (case calculateEAR landmarks left of
             Inl e \<Rightarrow> None
           | Inr leftEAR \<Rightarrow>
               (case calculateEAR landmarks right of
                  Inl e \<Rightarrow> None
                | Inr rightEAR \<Rightarrow> Some (min leftEAR rightEAR)))
      | _ \<Rightarrow> None)"

text \<open>
  An open observation that is still in force at the end of a sequence of frames: some
  frame has a face with \<open>frameEAR\<close> above the open threshold, and every frame after it
  has a face.
\<close>

definition openObserved :: "(real \<times> point list list option) list \<Rightarrow> bool" where
  "openObserved frames =
     (\<exists>pre t faces ear post.
        frames = pre @ (t, faces) # post \<and> frameEAR faces = Some ear \<and> ear > OPEN_THRESHOLD
        \<and> list_all (\<lambda>(t', faces'). \<not> noFace faces') post)"

text \<open>
  Frames for the fixtures: 478 landmarks with both eyes 10 wide and \<open>10 * ear\<close> high, so
  that both ratios are \<open>ear\<close>; and a head whose right cheek is at depth \<open>z\<close>, the left
  cheek and the chin at depth 0, the cheeks 3 apart sideways.
\<close>

definition eyesFrame :: "real \<Rightarrow> point list" where
  "eyesFrame ear = (replicate 478 (Point 0 0 0))
     [362 := Point 0 0 0, 263 := Point 10 0 0,
      385 := Point 5 (5 * ear) 0, 380 := Point 5 (- 5 * ear) 0,
      387 := Point 5 (5 * ear) 0, 373 := Point 5 (- 5 * ear) 0,
      33 := Point 0 0 0, 133 := Point 10 0 0,
      160 := Point 5 (5 * ear) 0, 144 := Point 5 (- 5 * ear) 0,
      158 := Point 5 (5 * ear) 0, 153 := Point 5 (- 5 * ear) 0]"

definition turnFrame :: "real \<Rightarrow> point list" where
  "turnFrame z = (replicate 478 (Point 0 0 0))
     [152 := Point 5 10 0, 234 := Point 0 5 0, 454 := Point 3 5 z]"

text \<open>A session with the default configuration, started at clock 1000, that begins with Blink.\<close>

definition blinkSession :: engine where
  "blinkSession =
     (case start 1000 (fixedDraws [3 / 4, 5 / 6, 3 / 4]) True True 1000 4 1 (readyEngine DEFAULT_CONFIG) of
        Inr (s, a) \<Rightarrow> s
      | Inl e \<Rightarrow> newEngine DEFAULT_CONFIG)"

subsection \<open>Sessions\<close>

text \<open>
  The callbacks of interest in a list of actions, and two runs of a whole session on
  \<open>blinkSession\<close>, whose challenges are Blink, TurnLeft, TurnRight. In \<open>passingInputs\<close>
  each challenge is passed and each settle timer fires 300 ms later. In \<open>lateInputs\<close> the
  last challenge is passed 50 ms before its timeout, and a frame without a face arrives
  100 ms later, before the settle timer fires.
\<close>

fun isChallengeChanged :: "action \<Rightarrow> bool" where
  "isChallengeChanged (OnChallengeChanged c) = True"
| "isChallengeChanged _ = False"

fun isSuccess :: "action \<Rightarrow> bool" where
  "isSuccess (OnSuccess descriptor) = True"
| "isSuccess _ = False"

fun isFailure :: "action \<Rightarrow> bool" where
  "isFailure (OnFailure code message) = True"
| "isFailure _ = False"

fun isStart :: "input \<Rightarrow> bool" where
  "isStart (Start now rnd video canvas now2 readyState rafId) = True"
| "isStart _ = False"

fun extractionYields :: "real list \<Rightarrow> input \<Rightarrow> bool" where
  "extractionYields raw (TimerFired now prediction) = (prediction = Inr raw)"
| "extractionYields raw _ = True"

text \<open>
  The invariant of a session with challenges \<open>cs\<close> whose extraction yields \<open>raw\<close>,
  over the host state and the actions so far: the engine awaits a challenge, or settles
  with one timer pending, or has completed; the timers set so far are the challenges
  left behind plus the timer pending; one challenge callback was made for every
  challenge begun, with a last one for the processing phase; and success was reported
  exactly if the session has completed.
\<close>

definition sessionInv :: "challenge list \<Rightarrow> real list \<Rightarrow> host \<Rightarrow> action list \<Rightarrow> bool" where
  "sessionInv cs raw h acts =
     (challenges (eng h) = cs \<and> length cs = 3
      \<and> ((isChallengeProcessing (eng h) \<and> timers h = 1 \<and> currentChallengeIndex (eng h) < 3)
           \<or> (isChallengeProcessing (eng h) \<and> timers h = 0 \<and> currentChallengeIndex (eng h) = 3)
           \<or> (\<not> isChallengeProcessing (eng h) \<and> timers h = 0
               \<and> currentChallengeIndex (eng h) < 3))
      \<and> count_list acts (SetTimeout 300) = currentChallengeIndex (eng h) + timers h
      \<and> filter isChallengeChanged acts
          = map OnChallengeChanged (take (currentChallengeIndex (eng h) + 1) (cs @ [PROCESSING]))
      \<and> filter isSuccess acts
          = (if currentChallengeIndex (eng h) = 3 then [OnSuccess (normalizedTensor raw)] else []))"

definition passingInputs :: "real list \<Rightarrow> input list" where
  "passingInputs raw =
     [Results 1100 (Some [eyesFrame 0.35]), Results 1200 (Some [eyesFrame 0.1]),
      TimerFired 1500 (Inr raw),
      Results 1600 (Some [turnFrame 4]), TimerFired 1900 (Inr raw),
      Results 2000 (Some [turnFrame (- 4)]), TimerFired 2300 (Inr raw)]"

definition lateInputs :: "real list \<Rightarrow> input list" where
  "lateInputs raw =
     [Results 1100 (Some [eyesFrame 0.35]), Results 1200 (Some [eyesFrame 0.1]),
      TimerFired 1500 (Inr raw),
      Results 1600 (Some [turnFrame 4]), TimerFired 1900 (Inr raw),
      Results 6850 (Some [turnFrame (- 4)]), Results 6950 None,
      TimerFired 7150 (Inr raw)]"

text \<open>The host before \<open>start\<close>, and what the two runs are expected to do.\<close>

definition readyHost :: host where
  "readyHost = \<lparr>eng = readyEngine DEFAULT_CONFIG, timers = 0\<rparr>"

definition startBlinkSession :: input where
  "startBlinkSession = Start 1000 (fixedDraws [3 / 4, 5 / 6, 3 / 4]) True True 1000 4 1"

definition completedSession :: host where
  "completedSession =
     \<lparr>eng = blinkSession\<lparr>isStopped := True, currentChallengeIndex := 3,
                            lastChallengeTime := 1900, isChallengeProcessing := True\<rparr>,
      timers = 0\<rparr>"

definition passingActions :: "real list \<Rightarrow> action list" where
  "passingActions raw =
     [OnChallengeChanged BLINK, FaceMeshSend,
      ClearRect, DrawDebugOverlay, OnProgress 0 (Some 0.35),
      ClearRect, DrawDebugOverlay, OnProgress 0 (Some 0.1), SetTimeout 300,
      OnChallengeChanged TURN_LEFT,
      ClearRect, DrawDebugOverlay, OnProgress 1 (Some 0.8), SetTimeout 300,
      OnChallengeChanged TURN_RIGHT,
      ClearRect, DrawDebugOverlay, OnProgress 1 (Some (- 0.8)), SetTimeout 300,
      ClearRect, OnChallengeChanged PROCESSING, OnSuccess (normalizedTensor raw)]"

definition lateActions :: "real list \<Rightarrow> action list" where
  "lateActions raw =
     [OnChallengeChanged BLINK, FaceMeshSend,
      ClearRect, DrawDebugOverlay, OnProgress 0 (Some 0.35),
      ClearRect, DrawDebugOverlay, OnProgress 0 (Some 0.1), SetTimeout 300,
      OnChallengeChanged TURN_LEFT,
      ClearRect, DrawDebugOverlay, OnProgress 1 (Some 0.8), SetTimeout 300,
      OnChallengeChanged TURN_RIGHT,
      ClearRect, DrawDebugOverlay, OnProgress 1 (Some (- 0.8)), SetTimeout 300,
      ClearRect, OnFailure FACE_NOT_FOUND ''Could not detect a face.'',
      ClearRect, OnChallengeChanged PROCESSING, OnSuccess (normalizedTensor raw)]"

section \<open>Properties\<close>

subsection \<open>Metric functions\<close>

lemma cosineLoop_sum:
  "i \<le> length a \<Longrightarrow> cosineLoop a b i d = d + (\<Sum>k = i..<length a. a ! k * b ! k)"
proof (induction a b i d rule: cosineLoop.induct)
  case (1 vecA vecB i dotProduct)
  show ?case
  proof (cases "i < length vecA")
    case True
    then have "cosineLoop vecA vecB i dotProduct =
      cosineLoop vecA vecB (i + 1) (dotProduct + vecA ! i * vecB ! i)"
      by (subst cosineLoop.simps) simp
    also have "\<dots> = dotProduct + vecA ! i * vecB ! i + (\<Sum>k = i + 1..<length vecA. vecA ! k * vecB ! k)"
      using 1(1)[OF True] True by simp
    also have "\<dots> = dotProduct + (\<Sum>k = i..<length vecA. vecA ! k * vecB ! k)"
      using True by (simp add: sum.atLeast_Suc_lessThan)
    finally show ?thesis .
  next
    case False
    with 1(2) show ?thesis by (subst cosineLoop.simps) simp
  qed
qed

lemma sq_sum_nonneg: "0 \<le> (\<Sum>x\<leftarrow>v. x\<^sup>2)" for v :: "real list"
  by (rule sum_list_nonneg) auto

lemma dot_self: "(\<Sum>k = 0..<length v. v ! k * v ! k) = (\<Sum>x\<leftarrow>v. x\<^sup>2)" for v :: "real list"
proof -
  have "(\<Sum>x\<leftarrow>v. x\<^sup>2) = (\<Sum>k = 0..<length (map power2 v). map power2 v ! k)"
    by (rule sum_list_sum_nth)
  also have "\<dots> = (\<Sum>k = 0..<length v. v ! k * v ! k)"
    by (simp add: power2_eq_square)
  finally show ?thesis by simp
qed

lemma tensorNorm_nonneg: "0 \<le> tensorNorm v"
  unfolding tensorNorm_def by (simp add: sq_sum_nonneg)

lemma sum_list_div: "(\<Sum>x\<leftarrow>v. (x / c)\<^sup>2) = (\<Sum>x\<leftarrow>v. x\<^sup>2) / c\<^sup>2" for c :: real
  by (induction v) (simp_all add: power_divide add_divide_distrib)

lemma norm_normalized: "tensorNorm v > 1 / 10 ^ 6 \<Longrightarrow> tensorNorm (normalizedTensor v) = 1"
proof -
  assume h: "tensorNorm v > 1 / 10 ^ 6"
  then have pos: "tensorNorm v > 0" by (smt (verit) divide_pos_pos zero_less_power)
  have sq: "(tensorNorm v)\<^sup>2 = (\<Sum>x\<leftarrow>v. x\<^sup>2)"
    unfolding tensorNorm_def by (simp add: sq_sum_nonneg)
  have "tensorNorm (normalizedTensor v) = sqrt ((\<Sum>x\<leftarrow>v. x\<^sup>2) / (tensorNorm v)\<^sup>2)"
    using h by (simp add: normalizedTensor_def Let_def tensorNorm_def[of "map _ _"] comp_def sum_list_div)
  also have "\<dots> = sqrt ((tensorNorm v)\<^sup>2 / (tensorNorm v)\<^sup>2)" by (simp only: sq)
  also have "\<dots> = 1" using pos by simp
  finally show ?thesis .
qed

lemma sqrt_25: "sqrt 25 = 5"
  using real_sqrt_abs [of 5] by simp

lemma sqrt_100: "sqrt 100 = 10"
  using real_sqrt_abs [of 10] by simp

text \<open>
  Claim C7. \<open>calculateCosineSimilarity\<close> returns 0 when either vector is absent or
  the lengths differ (it is a total function: it never throws); otherwise it returns the
  dot product, with no division by a magnitude. So for a unit vector \<open>v\<close> it gives 1
  on \<open>(v, v)\<close>, \<open>-1\<close> on \<open>(v, -v)\<close>, and 0 on orthogonal unit vectors.
\<close>

theorem calculateCosineSimilarity_dot_product:
  "calculateCosineSimilarity None vecB = 0
   \<and> calculateCosineSimilarity vecA None = 0
   \<and> (length a \<noteq> length b \<longrightarrow> calculateCosineSimilarity (Some a) (Some b) = 0)
   \<and> (length a = length b \<longrightarrow>
        calculateCosineSimilarity (Some a) (Some b) = (\<Sum>k = 0..<length a. a ! k * b ! k))
   \<and> ((\<Sum>x\<leftarrow>v. x\<^sup>2) = 1 \<longrightarrow>
        calculateCosineSimilarity (Some v) (Some v) = 1
        \<and> calculateCosineSimilarity (Some v) (Some (map uminus v)) = - 1)
   \<and> ((\<Sum>x\<leftarrow>a. x\<^sup>2) = 1 \<and> (\<Sum>x\<leftarrow>b. x\<^sup>2) = 1 \<and> length a = length b
        \<and> (\<Sum>k = 0..<length a. a ! k * b ! k) = 0 \<longrightarrow>
        calculateCosineSimilarity (Some a) (Some b) = 0)"
proof -
  have absent: "calculateCosineSimilarity None vecB = 0" "calculateCosineSimilarity vecA None = 0"
    by (simp_all add: calculateCosineSimilarity_def split: option.splits)
  have dot: "calculateCosineSimilarity (Some p) (Some q) = (\<Sum>k = 0..<length p. p ! k * q ! k)"
    if "length p = length q" for p q
    using that by (simp add: calculateCosineSimilarity_def cosineLoop_sum)
  have neg: "(\<Sum>k = 0..<length v. v ! k * map uminus v ! k) = - (\<Sum>k = 0..<length v. v ! k * v ! k)"
    by (simp add: sum_negf)
  have differ: "calculateCosineSimilarity (Some a) (Some b) = 0" if "length a \<noteq> length b"
    using that by (simp add: calculateCosineSimilarity_def)
  have unit: "calculateCosineSimilarity (Some v) (Some v) = 1
      \<and> calculateCosineSimilarity (Some v) (Some (map uminus v)) = - 1"
    if "(\<Sum>x\<leftarrow>v. x\<^sup>2) = 1"
    using that dot [of v v] dot [of v "map uminus v"] neg dot_self [of v] by simp
  show ?thesis
    using absent differ dot [of a b] unit by auto
qed

theorem calculateCosineSimilarity_dot_product_witness:
  "calculateCosineSimilarity None (Some [1]) = 0
   \<and> calculateCosineSimilarity (Some [1]) None = 0
   \<and> calculateCosineSimilarity (Some [1]) (Some [1, 2]) = 0
   \<and> calculateCosineSimilarity (Some [1, 0, 0]) (Some [0, 1, 0]) = 0
   \<and> calculateCosineSimilarity (Some [1, 0, 0]) (Some [1, 0, 0]) = 1
   \<and> calculateCosineSimilarity (Some [1, 0, 0]) (Some [- 1, 0, 0]) = - 1
   \<and> calculateCosineSimilarity (Some [2, 3]) (Some [5, 7]) = 31"
  using calculateCosineSimilarity_dot_product [of "Some [1]" "Some [1]" "[1]" "[1, 2]" "[1, 0, 0]"]
    calculateCosineSimilarity_dot_product [of None None "[1, 0, 0]" "[0, 1, 0]" "[1, 0, 0]"]
    calculateCosineSimilarity_dot_product [of None None "[2, 3]" "[5, 7]" "[1]"]
  by (simp add: numeral_3_eq_3 numeral_2_eq_2)

text \<open>
  Claim C8. On a landmark set that has the three head-pose points,
  \<open>calculateHeadTurnV2\<close> returns 0 whenever the distance between the two cheeks is
  below 0.1, whatever the depths; otherwise it returns the difference of the two cheek
  depths relative to the chin, divided by that distance, which is 0 when the two depths
  are equal.
\<close>

theorem calculateHeadTurnV2_ratio:
  "454 < length landmarks \<Longrightarrow>
     (let leftCheek = landmarks ! 234; rightCheek = landmarks ! 454; chin = landmarks ! 152;
          faceWidth = sqrt ((px leftCheek - px rightCheek)\<^sup>2 + (py leftCheek - py rightCheek)\<^sup>2
                            + (pz leftCheek - pz rightCheek)\<^sup>2)
      in (faceWidth < 0.1 \<longrightarrow> calculateHeadTurnV2 landmarks = Inr 0)
       \<and> (0.1 \<le> faceWidth \<longrightarrow>
            calculateHeadTurnV2 landmarks =
              Inr (((pz rightCheek - pz chin) - (pz leftCheek - pz chin)) / faceWidth))
       \<and> (pz rightCheek - pz chin = pz leftCheek - pz chin \<longrightarrow>
            calculateHeadTurnV2 landmarks = Inr 0))"
  by (simp add: calculateHeadTurnV2_def euclideanDistance_def Let_def
      HEAD_POSE_leftCheek_def HEAD_POSE_rightCheek_def HEAD_POSE_chin_def)

theorem calculateHeadTurnV2_ratio_witness:
  "454 < length neutralPose \<and> calculateHeadTurnV2 neutralPose = Inr 0
   \<and> calculateHeadTurnV2 (neutralPose[454 := Point 3 5 3]) = Inr (4 / 5)
   \<and> calculateHeadTurnV2 (neutralPose[454 := Point 0 5 (- 19 / 20)]) = Inr 0"
proof -
  have len: "454 < length neutralPose" "454 < length (neutralPose[454 := Point 3 5 3])"
     "454 < length (neutralPose[454 := Point 0 5 (- 19 / 20)])"
    by (simp_all add: neutralPose_def)
  have narrow: "sqrt ((- 1 - (- 19 / 20))\<^sup>2) < 1 / 10"
    by (simp add: real_sqrt_abs)
  show ?thesis
    using calculateHeadTurnV2_ratio [OF len(1)] calculateHeadTurnV2_ratio [OF len(2)]
      calculateHeadTurnV2_ratio [OF len(3)]
    using narrow by (simp add: neutralPose_def Let_def sqrt_25)
qed

subsection \<open>Descriptor and frame scheduler\<close>

lemma stop_no_failure: "OnFailure code message \<notin> set (snd (stop s))"
  by (simp add: stop_def Let_def split: option.splits)

text \<open>
  Claim C6. When extraction succeeds, \<open>completeLiveness\<close> emits as descriptor the raw
  embedding divided by its Euclidean norm whenever the norm exceeds \<open>1e-6\<close>, and the
  raw embedding itself otherwise; in both cases it reports success and no failure.
\<close>

theorem completeLiveness_descriptor:
  "(sqrt (\<Sum>x\<leftarrow>raw. x\<^sup>2) > 1 / 10 ^ 6 \<longrightarrow>
      completeLiveness (Inr raw) s =
        (fst (stop s),
         snd (stop s) @ [OnChallengeChanged PROCESSING,
                         OnSuccess (map (\<lambda>x. x / sqrt (\<Sum>x\<leftarrow>raw. x\<^sup>2)) raw)]))
   \<and> (sqrt (\<Sum>x\<leftarrow>raw. x\<^sup>2) \<le> 1 / 10 ^ 6 \<longrightarrow>
      completeLiveness (Inr raw) s =
        (fst (stop s), snd (stop s) @ [OnChallengeChanged PROCESSING, OnSuccess raw]))
   \<and> (\<forall>code message. OnFailure code message \<notin> set (snd (completeLiveness (Inr raw) s)))"
  using stop_no_failure [of _ _ s]
  by (simp add: completeLiveness_def normalizedTensor_def tensorNorm_def Let_def
      case_prod_beta)

theorem completeLiveness_descriptor_witness:
  "snd (completeLiveness (Inr [3, 4]) (newEngine DEFAULT_CONFIG)) =
     [OnChallengeChanged PROCESSING, OnSuccess [3 / 5, 4 / 5]]
   \<and> snd (completeLiveness (Inr [0, 0]) (newEngine DEFAULT_CONFIG)) =
     [OnChallengeChanged PROCESSING, OnSuccess [0, 0]]"
  using completeLiveness_descriptor [of "[3, 4]" "newEngine DEFAULT_CONFIG"]
    completeLiveness_descriptor [of "[0, 0]" "newEngine DEFAULT_CONFIG"]
  by (simp add: sqrt_25 stop_def newEngine_def Let_def)

lemma boundarySession_eq:
  "boundarySession =
     \<lparr>config = \<lparr>blinkEARThreshold = 1 / 4, headTurnThreshold = 2 / 5,
                 challengeTimeout = 5000, targetFPS = 50\<rparr>,
      videoElement = True, canvasCtx = True, isReady = True,
      detectionLoopId = None, isStopped = False,
      challenges = [TURN_RIGHT, TURN_LEFT, BLINK],
      currentChallengeIndex = 0, lastChallengeTime = 1000,
      isChallengeProcessing = False, hasDetectedOpenEyes = False,
      lastFrameTime = 1000\<rparr>"
  by (simp add: boundarySession_def start_def readyEngine_def load_def newEngine_def
      DEFAULT_CONFIG_def generateChallenges_def shuffleLoop.simps fixedDraws_def
      detectionLoop_def detectionLoopResume_def Let_def js_rem_def)

text \<open>
  Claim C4 as stated fails at the boundary: with exactly one interval (20 ms) elapsed
  since the last forwarded frame, the tick does not forward a frame.
\<close>

theorem detectionLoop_boundary_counterexample:
  "\<not> isStopped boundarySession \<and> videoElement boundarySession
   \<and> 1020 - lastFrameTime boundarySession \<ge> 1000 / targetFPS (config boundarySession)
   \<and> FaceMeshSend \<notin> set (snd (detectionLoop 1020 4 2 boundarySession))"
  by (simp add: boundarySession_eq detectionLoop_def detectionLoopResume_def Let_def)

lemma js_rem_pos:
  assumes "0 < b" "0 \<le> a"
  shows "js_rem a b = a - b * of_int \<lfloor>a / b\<rfloor>"
  using assms by (simp add: js_rem_def)

lemma floor_rem_bounds:
  fixes a b :: real
  assumes "0 < b"
  shows "0 \<le> a - b * of_int \<lfloor>a / b\<rfloor>" "a - b * of_int \<lfloor>a / b\<rfloor> < b"
proof -
  have "b * of_int \<lfloor>a / b\<rfloor> \<le> b * (a / b)"
    using assms by (intro mult_left_mono) auto
  then show "0 \<le> a - b * of_int \<lfloor>a / b\<rfloor>"
    using assms by simp
  have "a / b < of_int \<lfloor>a / b\<rfloor> + 1" by linarith
  then have "b * (a / b) < b * (of_int \<lfloor>a / b\<rfloor> + 1)"
    using assms by (intro mult_strict_left_mono) auto
  then show "a - b * of_int \<lfloor>a / b\<rfloor> < b"
    using assms by (simp add: algebra_simps)
qed

text \<open>
  Claim C4, amended. On a tick of a running session (not stopped, the video element
  set and ready) with a positive \<open>targetFPS\<close>, a frame is forwarded if and only if the
  time elapsed since the last forwarded frame is strictly greater than
  \<open>1000 / targetFPS\<close>. On forwarding, the last-frame timestamp becomes now minus the
  remainder of elapsed modulo the interval, a value in \<open>[0, interval)\<close>, and the next
  tick is registered only after the await; otherwise the timestamp is kept and the next
  tick is registered at once.
\<close>

theorem detectionLoop_throttle:
  assumes "\<not> isStopped s" and "videoElement s" and "2 \<le> readyState"
    and "0 < targetFPS (config s)"
  shows "let interval = 1000 / targetFPS (config s);
             elapsed = now - lastFrameTime s;
             remainder = elapsed - interval * of_int \<lfloor>elapsed / interval\<rfloor>
         in (FaceMeshSend \<in> set (snd (detectionLoop now readyState rafId s))
               \<longleftrightarrow> elapsed > interval)
          \<and> (elapsed > interval \<longrightarrow>
                0 \<le> remainder \<and> remainder < interval
                \<and> detectionLoop now readyState rafId s
                    = (s\<lparr>lastFrameTime := now - remainder\<rparr>, [FaceMeshSend]))
          \<and> (elapsed \<le> interval \<longrightarrow>
                detectionLoop now readyState rafId s
                  = (s\<lparr>detectionLoopId := Some rafId\<rparr>, [RequestAnimationFrame rafId]))"
proof -
  define i where "i = 1000 / targetFPS (config s)"
  define e where "e = now - lastFrameTime s"
  define r where "r = e - i * of_int \<lfloor>e / i\<rfloor>"
  have ipos: "0 < i" using assms(4) by (simp add: i_def)
  have nz: "targetFPS (config s) \<noteq> 0" using assms(4) by simp
  have rb: "0 \<le> r" "r < i"
    using floor_rem_bounds [OF ipos, of e] by (simp_all only: r_def)
  have guard: "\<not> (isStopped s \<or> \<not> videoElement s \<or> readyState < 2)"
    using assms by simp
  have dl: "detectionLoop now readyState rafId s =
      (if e > i then (s\<lparr>lastFrameTime := now - js_rem e i\<rparr>, [FaceMeshSend])
       else (s\<lparr>detectionLoopId := Some rafId\<rparr>, [RequestAnimationFrame rafId]))"
    unfolding detectionLoop_def detectionLoopResume_def Let_def i_def e_def
    by (simp only: guard nz if_False if_True simp_thms)
  have jr: "js_rem e i = r" if "e > i"
  proof -
    have "0 \<le> e" using that ipos by linarith
    with ipos show ?thesis by (simp only: js_rem_pos r_def)
  qed
  have main: "(FaceMeshSend \<in> set (snd (detectionLoop now readyState rafId s)) \<longleftrightarrow> e > i)
      \<and> (e > i \<longrightarrow> 0 \<le> r \<and> r < i
            \<and> detectionLoop now readyState rafId s
                = (s\<lparr>lastFrameTime := now - r\<rparr>, [FaceMeshSend]))
      \<and> (e \<le> i \<longrightarrow> detectionLoop now readyState rafId s
            = (s\<lparr>detectionLoopId := Some rafId\<rparr>, [RequestAnimationFrame rafId]))"
  proof (cases "e > i")
    case True
    then show ?thesis using rb by (simp add: dl jr)
  next
    case False
    then show ?thesis by (simp add: dl)
  qed
  show ?thesis
    unfolding Let_def by (rule main [unfolded r_def e_def i_def])
qed

lemma boundarySession_fields:
  "isStopped boundarySession = False" "videoElement boundarySession = True"
  "targetFPS (config boundarySession) = 50" "lastFrameTime boundarySession = 1000"
  by (simp_all add: boundarySession_eq)

theorem detectionLoop_throttle_witness:
  "detectionLoop 1045 4 2 boundarySession = (boundarySession\<lparr>lastFrameTime := 1040\<rparr>, [FaceMeshSend])
   \<and> detectionLoop 1020 4 2 boundarySession =
       (boundarySession\<lparr>detectionLoopId := Some 2\<rparr>, [RequestAnimationFrame 2])"
proof -
  have h: "\<not> isStopped boundarySession" "videoElement boundarySession" "(2::nat) \<le> 4"
    "0 < targetFPS (config boundarySession)"
    by (simp_all add: boundarySession_fields)
  have fl: "\<lfloor>(9::real) / 4\<rfloor> = 2" by linarith
  show ?thesis
    using detectionLoop_throttle [OF h, of 1045 2] detectionLoop_throttle [OF h, of 1020 2] fl
    by (simp add: boundarySession_fields Let_def)
qed

subsection \<open>Challenge sequencer\<close>

lemma generateChallenges_unfold:
  "generateChallenges rnd =
     (let cs = (if rnd 0 > 0.5 then [BLINK, TURN_LEFT, TURN_RIGHT] else [BLINK, TURN_RIGHT, TURN_LEFT]);
          j2 = nat \<lfloor>rnd 1 * 3\<rfloor>;
          cs1 = (cs[2 := cs ! j2])[j2 := cs ! 2];
          j1 = nat \<lfloor>rnd 2 * 2\<rfloor>
      in (cs1[1 := cs1 ! j1])[j1 := cs1 ! 1])"
  by (simp add: generateChallenges_def shuffleLoop.simps Let_def numeral_2_eq_2)

lemma draw_index:
  fixes r :: real
  assumes "0 \<le> r" "r < 1"
  shows "nat \<lfloor>r * 3\<rfloor> \<in> {0, 1, 2}" "nat \<lfloor>r * 2\<rfloor> \<in> {0, 1}"
proof -
  have "0 \<le> \<lfloor>r * 3\<rfloor>" "\<lfloor>r * 3\<rfloor> < 3" using assms by (simp_all add: floor_less_iff)
  then have "\<lfloor>r * 3\<rfloor> = 0 \<or> \<lfloor>r * 3\<rfloor> = 1 \<or> \<lfloor>r * 3\<rfloor> = 2" by linarith
  then show "nat \<lfloor>r * 3\<rfloor> \<in> {0, 1, 2}" by (elim disjE) simp_all
  have "0 \<le> \<lfloor>r * 2\<rfloor>" "\<lfloor>r * 2\<rfloor> < 2" using assms by (simp_all add: floor_less_iff)
  then have "\<lfloor>r * 2\<rfloor> = 0 \<or> \<lfloor>r * 2\<rfloor> = 1" by linarith
  then show "nat \<lfloor>r * 2\<rfloor> \<in> {0, 1}" by (elim disjE) simp_all
qed

lemma cellDraws_simps:
  "cellDraws p j2 j1 0 = (if p then 3 / 4 else 1 / 4)"
  "cellDraws p j2 j1 1 = [1 / 6, 1 / 2, 5 / 6] ! j2"
  "cellDraws p j2 j1 (Suc 0) = [1 / 6, 1 / 2, 5 / 6] ! j2"
  "cellDraws p j2 j1 2 = [1 / 4, 3 / 4] ! j1"
  by (simp_all add: cellDraws_def fixedDraws_def)

lemma floor_cells:
  "nat \<lfloor>(1 / 6 :: real) * 3\<rfloor> = 0" "nat \<lfloor>(1 / 2 :: real) * 3\<rfloor> = 1" "nat \<lfloor>(5 / 6 :: real) * 3\<rfloor> = 2"
  "nat \<lfloor>(1 / 4 :: real) * 2\<rfloor> = 0" "nat \<lfloor>(3 / 4 :: real) * 2\<rfloor> = 1"
  by (simp_all add: floor_eq_iff)

lemma generateChallenges_cell:
  assumes "j2 \<in> {0, 1, 2}" "j1 \<in> {0, 1}"
  shows "generateChallenges (cellDraws p j2 j1) =
     (let cs = (if p then [BLINK, TURN_LEFT, TURN_RIGHT] else [BLINK, TURN_RIGHT, TURN_LEFT]);
          cs1 = (cs[2 := cs ! j2])[j2 := cs ! 2]
      in (cs1[1 := cs1 ! j1])[j1 := cs1 ! 1])"
  using assms
  by (auto simp add: generateChallenges_unfold cellDraws_simps floor_cells Let_def)

lemma generateChallenges_depends_on_cell:
  assumes "0 \<le> rnd 1" "rnd 1 < 1" "0 \<le> rnd 2" "rnd 2 < 1"
  shows "generateChallenges rnd =
     generateChallenges (cellDraws (rnd 0 > 0.5) (nat \<lfloor>rnd 1 * 3\<rfloor>) (nat \<lfloor>rnd 2 * 2\<rfloor>))"
  using draw_index [OF assms(1,2)] draw_index [OF assms(3,4)]
  by (subst generateChallenges_cell) (auto simp add: generateChallenges_unfold Let_def)

lemma generateChallenges_permutation:
  assumes "0 \<le> rnd 1" "rnd 1 < 1" "0 \<le> rnd 2" "rnd 2 < 1"
  shows "length (generateChallenges rnd) = 3
     \<and> mset (generateChallenges rnd) = {#BLINK, TURN_LEFT, TURN_RIGHT#}"
  using draw_index [OF assms(1,2)] draw_index [OF assms(3,4)]
  by (auto simp add: generateChallenges_unfold Let_def)

lemma generateProbability_values:
  "generateProbability [BLINK, TURN_LEFT, TURN_RIGHT] = 1 / 6"
  "generateProbability [BLINK, TURN_RIGHT, TURN_LEFT] = 1 / 6"
  "generateProbability [TURN_LEFT, BLINK, TURN_RIGHT] = 1 / 6"
  "generateProbability [TURN_LEFT, TURN_RIGHT, BLINK] = 1 / 6"
  "generateProbability [TURN_RIGHT, BLINK, TURN_LEFT] = 1 / 6"
  "generateProbability [TURN_RIGHT, TURN_LEFT, BLINK] = 1 / 6"
  by (simp_all add: generateProbability_def generateCells_def generateChallenges_cell Let_def)

lemma three_permutations:
  assumes "mset cs = {#BLINK, TURN_LEFT, TURN_RIGHT#}"
  shows "cs \<in> {[BLINK, TURN_LEFT, TURN_RIGHT], [BLINK, TURN_RIGHT, TURN_LEFT],
               [TURN_LEFT, BLINK, TURN_RIGHT], [TURN_LEFT, TURN_RIGHT, BLINK],
               [TURN_RIGHT, BLINK, TURN_LEFT], [TURN_RIGHT, TURN_LEFT, BLINK]}"
proof -
  have "length cs = 3"
    using arg_cong [OF assms, of size] by simp
  then obtain a b c where cs: "cs = [a, b, c]"
    by (auto simp add: numeral_3_eq_3 length_Suc_conv)
  have m: "mset cs = mset [BLINK, TURN_LEFT, TURN_RIGHT]"
    using assms by simp
  have "set cs = {BLINK, TURN_LEFT, TURN_RIGHT}"
    using mset_eq_setD [OF m] by auto
  moreover have "distinct cs"
    using mset_eq_imp_distinct_iff [OF m] by simp
  ultimately show ?thesis
    unfolding cs by (cases a; cases b; cases c) auto
qed

text \<open>
  Claim C3. Whatever the draws in \<open>[0, 1)\<close>, \<open>generateChallenges\<close> returns three
  elements, one each of Blink, TurnLeft and TurnRight, and the result depends only on the
  cell of the draws: the pairing choice and the two Fisher--Yates indices, drawn for the
  last index and then for index 1. With probability \<open>1/2 * 1/3 * 1/2\<close> for each of the
  12 cells, every one of the 6 permutations has probability exactly \<open>1/6\<close>.
\<close>

theorem generateChallenges_uniform:
  "(0 \<le> rnd 1 \<and> rnd 1 < 1 \<and> 0 \<le> rnd 2 \<and> rnd 2 < 1 \<longrightarrow>
      length (generateChallenges rnd) = 3
      \<and> mset (generateChallenges rnd) = {#BLINK, TURN_LEFT, TURN_RIGHT#}
      \<and> generateChallenges rnd =
          generateChallenges (cellDraws (rnd 0 > 0.5) (nat \<lfloor>rnd 1 * 3\<rfloor>) (nat \<lfloor>rnd 2 * 2\<rfloor>)))
   \<and> (mset cs = {#BLINK, TURN_LEFT, TURN_RIGHT#} \<longrightarrow> generateProbability cs = 1 / 6)"
proof (intro conjI impI)
  assume h: "0 \<le> rnd 1 \<and> rnd 1 < 1 \<and> 0 \<le> rnd 2 \<and> rnd 2 < 1"
  then show "length (generateChallenges rnd) = 3"
    and "mset (generateChallenges rnd) = {#BLINK, TURN_LEFT, TURN_RIGHT#}"
    using generateChallenges_permutation [of rnd] by simp_all
  from h show "generateChallenges rnd =
      generateChallenges (cellDraws (rnd 0 > 0.5) (nat \<lfloor>rnd 1 * 3\<rfloor>) (nat \<lfloor>rnd 2 * 2\<rfloor>))"
    using generateChallenges_depends_on_cell [of rnd] by simp
next
  assume "mset cs = {#BLINK, TURN_LEFT, TURN_RIGHT#}"
  from three_permutations [OF this] show "generateProbability cs = 1 / 6"
    using generateProbability_values by auto
qed

theorem generateChallenges_uniform_witness:
  "generateChallenges (fixedDraws [7 / 10, 1 / 2, 1 / 5]) = [TURN_RIGHT, BLINK, TURN_LEFT]
   \<and> generateChallenges (fixedDraws [7 / 10, 1 / 2, 1 / 5]) = generateChallenges (cellDraws True 1 0)
   \<and> generateProbability [TURN_RIGHT, BLINK, TURN_LEFT] = 1 / 6"
proof -
  let ?d = "fixedDraws [7 / 10, 1 / 2, 1 / 5]"
  have fl: "nat \<lfloor>(1 / 2 :: real) * 3\<rfloor> = 1" "nat \<lfloor>(1 / 5 :: real) * 2\<rfloor> = 0"
    by (simp_all add: floor_eq_iff)
  have v: "generateChallenges ?d = [TURN_RIGHT, BLINK, TURN_LEFT]"
    by (simp add: generateChallenges_unfold fixedDraws_def fl Let_def)
  have h: "0 \<le> ?d 1 \<and> ?d 1 < 1 \<and> 0 \<le> ?d 2 \<and> ?d 2 < 1"
    by (simp add: fixedDraws_def)
  have m: "mset [TURN_RIGHT, BLINK, TURN_LEFT] = {#BLINK, TURN_LEFT, TURN_RIGHT#}"
    by (simp add: add_mset_commute)
  have cell: "cellDraws (?d 0 > 0.5) (nat \<lfloor>?d 1 * 3\<rfloor>) (nat \<lfloor>?d 2 * 2\<rfloor>) = cellDraws True 1 0"
    by (simp add: fixedDraws_def fl)
  note th = generateChallenges_uniform [of ?d "[TURN_RIGHT, BLINK, TURN_LEFT]"]
  from th h have c: "generateChallenges ?d =
      generateChallenges (cellDraws (?d 0 > 0.5) (nat \<lfloor>?d 1 * 3\<rfloor>) (nat \<lfloor>?d 2 * 2\<rfloor>))"
    by blast
  from th m have p: "generateProbability [TURN_RIGHT, BLINK, TURN_LEFT] = 1 / 6"
    by blast
  show ?thesis
    by (intro conjI) (rule v, rule c [unfolded cell], rule p)
qed

subsection \<open>Timeouts\<close>

lemma neutralPose_turn: "calculateHeadTurnV2 neutralPose = Inr 0"
  by (simp add: calculateHeadTurnV2_def neutralPose_def Let_def euclideanDistance_def sqrt_100
      HEAD_POSE_leftCheek_def HEAD_POSE_rightCheek_def HEAD_POSE_chin_def)

lemma challengeSwitch_keeps:
  assumes "challengeSwitch landmarks s = Inr (s1, passed, progress, rawValue)"
  shows "s1 = s \<or> s1 = s\<lparr>hasDetectedOpenEyes := True\<rparr>"
  using assms
  by (auto simp add: challengeSwitch_def Let_def
      split: option.splits challenge.splits sum.splits if_splits)

lemma failure_code_of_results:
  assumes "onFaceMeshResults now faces s = Inr (s', a)" and "OnFailure code message \<in> set a"
  shows "(code = FACE_NOT_FOUND \<or> code = CHALLENGE_TIMEOUT)
     \<and> now - lastChallengeTime s > challengeTimeout (config s)"
proof (cases "isStopped s")
  case True
  with assms show ?thesis by (simp add: onFaceMeshResults_def)
next
  case False
  show ?thesis
  proof (cases "\<exists>landmarks others. faces = Some (landmarks # others)")
    case noface: False
    then have "faces = None \<or> faces = Some []"
      by (metis list.exhaust option.exhaust)
    with assms False show ?thesis
      by (auto simp add: stop_no_failure onFaceMeshResults_def failChallenge_def drawDebugOverlay_def Let_def
          case_prod_beta split: if_splits)
  next
    case True
    then obtain landmarks others where f: "faces = Some (landmarks # others)" by blast
    show ?thesis
    proof (cases "isChallengeProcessing s")
      case True
      with assms False f show ?thesis
        by (auto simp add: onFaceMeshResults_def processChallenge_def drawDebugOverlay_def
            split: if_splits)
    next
      case np: False
      from assms False f np obtain s1 passed progress rawValue
        where sw: "challengeSwitch landmarks s = Inr (s1, passed, progress, rawValue)"
        by (auto simp add: onFaceMeshResults_def processChallenge_def split: sum.splits)
      from challengeSwitch_keeps [OF sw]
      have same: "lastChallengeTime s1 = lastChallengeTime s" "config s1 = config s"
        by auto
      from assms False f np sw same show ?thesis
        by (auto simp add: stop_no_failure onFaceMeshResults_def processChallenge_def failChallenge_def
            drawDebugOverlay_def Let_def case_prod_beta split: if_splits)
    qed
  qed
qed

lemma boundarySession_switch:
  "challengeSwitch neutralPose boundarySession = Inr (boundarySession, False, 0, Some 0)"
  by (simp add: challengeSwitch_def currentChallenge_def neutralPose_turn boundarySession_eq)

text \<open>
  Claim C5. While a session is running, a frame without a face that arrives more than
  \<open>challengeTimeout\<close> ms after the current challenge started stops the session and
  reports the failure \<open>FACE_NOT_FOUND\<close>; while a challenge is awaited, a frame with a
  face that does not pass the challenge and arrives that late stops the session and
  reports \<open>CHALLENGE_TIMEOUT\<close>. These two failures are only ever reported by the results
  callback, on a frame that arrives that late: no other entry point of the engine, the
  settle timer included, reports them.
\<close>

theorem timeout_failures:
  "(\<not> isStopped s \<and> (faces = None \<or> faces = Some [])
      \<and> now - lastChallengeTime s > challengeTimeout (config s) \<longrightarrow>
      (\<exists>s' a. onFaceMeshResults now faces s
                 = Inr (s', a @ [OnFailure FACE_NOT_FOUND ''Could not detect a face.''])
              \<and> isStopped s' \<and> (\<forall>c m. OnFailure c m \<notin> set a)))
   \<and> (\<not> isStopped s \<and> \<not> isChallengeProcessing s
      \<and> challengeSwitch landmarks s = Inr (s1, False, progress, rawValue)
      \<and> now - lastChallengeTime s > challengeTimeout (config s) \<longrightarrow>
      (\<exists>s' a m. onFaceMeshResults now (Some (landmarks # others)) s
                   = Inr (s', a @ [OnFailure CHALLENGE_TIMEOUT m])
              \<and> isStopped s' \<and> (\<forall>c m. OnFailure c m \<notin> set a)))
   \<and> (step i h = Inr (h', acts) \<and> OnFailure code message \<in> set acts
      \<and> (code = FACE_NOT_FOUND \<or> code = CHALLENGE_TIMEOUT) \<longrightarrow>
      (\<exists>t fs. i = Results t fs \<and> \<not> isStopped (eng h)
          \<and> t - lastChallengeTime (eng h) > challengeTimeout (config (eng h))))"
proof (intro conjI impI)
  assume h: "\<not> isStopped s \<and> (faces = None \<or> faces = Some [])
      \<and> now - lastChallengeTime s > challengeTimeout (config s)"
  let ?s1 = "s\<lparr>hasDetectedOpenEyes := False\<rparr>"
  have "onFaceMeshResults now faces s
      = Inr (fst (stop ?s1), (drawDebugOverlay faces s @ snd (stop ?s1))
             @ [OnFailure FACE_NOT_FOUND ''Could not detect a face.''])"
    using h by (auto simp add: onFaceMeshResults_def failChallenge_def Let_def case_prod_beta)
  moreover have "isStopped (fst (stop ?s1))"
    by (simp add: stop_def Let_def)
  moreover have "\<forall>c m. OnFailure c m \<notin> set (drawDebugOverlay faces s @ snd (stop ?s1))"
    by (simp add: stop_no_failure drawDebugOverlay_def)
  ultimately show "\<exists>s' a. onFaceMeshResults now faces s
                 = Inr (s', a @ [OnFailure FACE_NOT_FOUND ''Could not detect a face.''])
              \<and> isStopped s' \<and> (\<forall>c m. OnFailure c m \<notin> set a)"
    by blast
next
  assume h: "\<not> isStopped s \<and> \<not> isChallengeProcessing s
      \<and> challengeSwitch landmarks s = Inr (s1, False, progress, rawValue)
      \<and> now - lastChallengeTime s > challengeTimeout (config s)"
  then have sw: "challengeSwitch landmarks s = Inr (s1, False, progress, rawValue)" by simp
  from challengeSwitch_keeps [OF sw]
  have same: "lastChallengeTime s1 = lastChallengeTime s" "config s1 = config s"
    by auto
  let ?m = "''Challenge timed out: '' @ challengeName (currentChallenge s1)"
  let ?a = "drawDebugOverlay (Some (landmarks # others)) s
      @ [OnProgress (max 0 (min progress 1)) rawValue] @ snd (stop s1)"
  have "onFaceMeshResults now (Some (landmarks # others)) s
      = Inr (fst (stop s1), ?a @ [OnFailure CHALLENGE_TIMEOUT ?m])"
    using h same
    by (simp add: onFaceMeshResults_def processChallenge_def failChallenge_def Let_def
        case_prod_beta)
  moreover have "isStopped (fst (stop s1))"
    by (simp add: stop_def Let_def)
  moreover have "\<forall>c m. OnFailure c m \<notin> set ?a"
    by (simp add: stop_no_failure drawDebugOverlay_def)
  ultimately show "\<exists>s' a m. onFaceMeshResults now (Some (landmarks # others)) s
                   = Inr (s', a @ [OnFailure CHALLENGE_TIMEOUT m])
              \<and> isStopped s' \<and> (\<forall>c m. OnFailure c m \<notin> set a)"
    by blast
next
  assume h: "step i h = Inr (h', acts) \<and> OnFailure code message \<in> set acts
      \<and> (code = FACE_NOT_FOUND \<or> code = CHALLENGE_TIMEOUT)"
  show "\<exists>t fs. i = Results t fs \<and> \<not> isStopped (eng h)
          \<and> t - lastChallengeTime (eng h) > challengeTimeout (config (eng h))"
  proof (cases i)
    case (Load loaded)
    with h show ?thesis
      by (auto simp add: load_def split: sum.splits)
  next
    case (Start t rnd video canvas t2 readyState rafId)
    with h show ?thesis
      by (auto simp add: start_def detectionLoop_def detectionLoopResume_def Let_def
          split: if_splits option.splits sum.splits)
  next
    case Stop
    with h show ?thesis
      by (auto simp add: stop_no_failure case_prod_beta)
  next
    case (AnimationFrame t readyState rafId)
    with h show ?thesis
      by (auto simp add: detectionLoop_def detectionLoopResume_def Let_def split: if_splits)
  next
    case (SendResolved rafId)
    with h show ?thesis
      by (auto simp add: detectionLoopResume_def)
  next
    case (Results t fs)
    with h obtain s' where r: "onFaceMeshResults t fs (eng h) = Inr (s', acts)"
      by (auto split: sum.splits)
    from failure_code_of_results [OF r] h
    have late: "t - lastChallengeTime (eng h) > challengeTimeout (config (eng h))" by blast
    have "\<not> isStopped (eng h)"
      using r h by (auto simp add: onFaceMeshResults_def)
    with late Results show ?thesis by simp
  next
    case (TimerFired t prediction)
    with h show ?thesis
      by (auto simp add: moveToNextChallenge_def completeLiveness_def failChallenge_def
          stop_no_failure Let_def case_prod_beta split: if_splits sum.splits)
  qed
qed

theorem timeout_failures_witness:
  "(\<exists>s' a. onFaceMeshResults 7000 None boundarySession
               = Inr (s', a @ [OnFailure FACE_NOT_FOUND ''Could not detect a face.''])
            \<and> isStopped s')
   \<and> (\<exists>s' a m. onFaceMeshResults 7000 (Some [neutralPose]) boundarySession
               = Inr (s', a @ [OnFailure CHALLENGE_TIMEOUT m])
            \<and> isStopped s')
   \<and> step (Results 7000 None) \<lparr>eng = boundarySession, timers = 0\<rparr>
       = Inr (\<lparr>eng = boundarySession\<lparr>isStopped := True\<rparr>, timers = 0\<rparr>,
              [ClearRect, OnFailure FACE_NOT_FOUND ''Could not detect a face.''])
   \<and> 7000 - lastChallengeTime boundarySession > challengeTimeout (config boundarySession)"
proof -
  have st: "step (Results 7000 None) \<lparr>eng = boundarySession, timers = 0\<rparr>
       = Inr (\<lparr>eng = boundarySession\<lparr>isStopped := True\<rparr>, timers = 0\<rparr>,
              [ClearRect, OnFailure FACE_NOT_FOUND ''Could not detect a face.''])"
    by (simp add: onFaceMeshResults_def failChallenge_def stop_def drawDebugOverlay_def
        Let_def boundarySession_eq)
  note th = timeout_failures [where s = boundarySession and faces = None and now = 7000
      and landmarks = neutralPose and ?s1.0 = boundarySession and progress = 0
      and rawValue = "Some 0" and others = "[]"
      and i = "Results 7000 None" and h = "\<lparr>eng = boundarySession, timers = 0\<rparr>"
      and h' = "\<lparr>eng = boundarySession\<lparr>isStopped := True\<rparr>, timers = 0\<rparr>"
      and acts = "[ClearRect, OnFailure FACE_NOT_FOUND ''Could not detect a face.'']"
      and code = FACE_NOT_FOUND and message = "''Could not detect a face.''"]
  have pre: "\<not> isStopped boundarySession" "\<not> isChallengeProcessing boundarySession"
    "7000 - lastChallengeTime boundarySession > challengeTimeout (config boundarySession)"
    by (simp_all add: boundarySession_eq)
  from th pre boundarySession_switch st show ?thesis
    by auto
qed

subsection \<open>Blink detection\<close>

lemma eyesFrame_EAR:
  assumes "0 \<le> ear"
  shows "calculateEAR (eyesFrame ear) sd = Inr ear"
proof -
  have "sqrt (100 * ear\<^sup>2) = sqrt ((10 * ear)\<^sup>2)"
    by (simp add: power_mult_distrib)
  then have d: "sqrt (100 * ear\<^sup>2) = 10 * ear"
    using assms by (simp only: real_sqrt_abs)
  show ?thesis
    by (cases sd) (simp_all add: calculateEAR_def eyesFrame_def Let_def euclideanDistance_def
        sqrt_100 d)
qed

lemma eyesFrame_frameEAR:
  "0 \<le> ear \<Longrightarrow> frameEAR (Some [eyesFrame ear]) = Some ear"
  by (simp add: frameEAR_def eyesFrame_EAR)

lemma turnFrame_ratio:
  "calculateHeadTurnV2 (turnFrame 4) = Inr (4 / 5)"
  "calculateHeadTurnV2 (turnFrame (- 4)) = Inr (- 4 / 5)"
  by (simp_all add: calculateHeadTurnV2_def turnFrame_def Let_def euclideanDistance_def sqrt_25
      HEAD_POSE_leftCheek_def HEAD_POSE_rightCheek_def HEAD_POSE_chin_def)

lemma blinkSession_eq:
  "blinkSession =
     \<lparr>config = \<lparr>blinkEARThreshold = 1 / 4, headTurnThreshold = 2 / 5,
                 challengeTimeout = 5000, targetFPS = 30\<rparr>,
      videoElement = True, canvasCtx = True, isReady = True,
      detectionLoopId = None, isStopped = False,
      challenges = [BLINK, TURN_LEFT, TURN_RIGHT],
      currentChallengeIndex = 0, lastChallengeTime = 1000,
      isChallengeProcessing = False, hasDetectedOpenEyes = False,
      lastFrameTime = 1000\<rparr>"
  by (simp add: blinkSession_def start_def readyEngine_def load_def newEngine_def
      DEFAULT_CONFIG_def generateChallenges_def shuffleLoop.simps fixedDraws_def
      detectionLoop_def detectionLoopResume_def Let_def js_rem_def)

lemma results_stopped: "isStopped s \<Longrightarrow> onFaceMeshResults now faces s = Inr (s, [])"
  by (simp add: onFaceMeshResults_def)

lemma noFace_cases: "noFace faces \<longleftrightarrow> faces = None \<or> faces = Some []"
  by (auto simp add: noFace_def split: option.splits list.splits)

lemma face_cases: "\<not> noFace faces \<longleftrightarrow> (\<exists>landmarks others. faces = Some (landmarks # others))"
  by (auto simp add: noFace_def split: option.splits list.splits)

lemma frameEAR_face: "frameEAR faces = Some ear \<Longrightarrow> \<not> noFace faces"
  by (auto simp add: frameEAR_def noFace_def split: option.splits list.splits)

lemma stop_fields:
  "isStopped (fst (stop s))"
  "isChallengeProcessing (fst (stop s)) = isChallengeProcessing s"
  "hasDetectedOpenEyes (fst (stop s)) = hasDetectedOpenEyes s"
  "currentChallenge (fst (stop s)) = currentChallenge s"
  "config (fst (stop s)) = config s"
  "challenges (fst (stop s)) = challenges s"
  "currentChallengeIndex (fst (stop s)) = currentChallengeIndex s"
  "lastChallengeTime (fst (stop s)) = lastChallengeTime s"
  by (simp_all add: stop_def Let_def currentChallenge_def)

lemma stop_no_timeout: "SetTimeout n \<notin> set (snd (stop s))"
  by (simp add: stop_def Let_def split: option.splits)

lemma currentChallenge_update [simp]:
  "currentChallenge (s\<lparr>hasDetectedOpenEyes := b\<rparr>) = currentChallenge s"
  "currentChallenge (s\<lparr>isChallengeProcessing := b\<rparr>) = currentChallenge s"
  by (simp_all add: currentChallenge_def)

text \<open>A frame without a face, on a running session.\<close>

lemma results_noFace:
  assumes "onFaceMeshResults now faces s = Inr (s', a)" and "\<not> isStopped s" and "noFace faces"
  shows "\<not> hasDetectedOpenEyes s'"
    and "isChallengeProcessing s' = isChallengeProcessing s"
    and "currentChallenge s' = currentChallenge s" and "config s' = config s"
    and "SetTimeout 300 \<notin> set a"
proof -
  let ?s0 = "s\<lparr>hasDetectedOpenEyes := False\<rparr>"
  from assms have "(s' = ?s0 \<and> a = drawDebugOverlay faces s)
      \<or> (s' = fst (stop ?s0) \<and> a = drawDebugOverlay faces s @ snd (stop ?s0)
            @ [OnFailure FACE_NOT_FOUND ''Could not detect a face.''])"
    by (auto simp add: noFace_cases onFaceMeshResults_def failChallenge_def Let_def
        case_prod_beta split: if_splits)
  then show "\<not> hasDetectedOpenEyes s'"
    and "isChallengeProcessing s' = isChallengeProcessing s"
    and "currentChallenge s' = currentChallenge s" and "config s' = config s"
    and "SetTimeout 300 \<notin> set a"
    by (auto simp add: stop_fields stop_no_timeout drawDebugOverlay_def)
qed

lemma calculateEAR_error: "calculateEAR landmarks sd = Inl e \<Longrightarrow> e = TypeError"
  by (simp add: calculateEAR_def Let_def split: if_splits)

text \<open>A frame with a face, on a session that awaits Blink.\<close>

lemma blinkSwitch:
  assumes "currentChallenge s = Some BLINK" and "faces = Some (landmarks # others)"
  shows "challengeSwitch landmarks s =
     (case frameEAR faces of
        None \<Rightarrow> Inl TypeError
      | Some ear \<Rightarrow>
          Inr (s\<lparr>hasDetectedOpenEyes := hasDetectedOpenEyes s \<or> ear > OPEN_THRESHOLD\<rparr>,
               (hasDetectedOpenEyes s \<or> ear > OPEN_THRESHOLD) \<and> ear < blinkEARThreshold (config s),
               0, Some ear))"
  using assms
  by (auto simp add: challengeSwitch_def frameEAR_def Let_def dest: calculateEAR_error
      split: sum.splits)

lemma results_blink:
  assumes "onFaceMeshResults now faces s = Inr (s', a)"
    and "\<not> isStopped s" and "\<not> isChallengeProcessing s"
    and "currentChallenge s = Some BLINK" and "\<not> noFace faces"
  shows "\<exists>ear. frameEAR faces = Some ear
     \<and> hasDetectedOpenEyes s' = (hasDetectedOpenEyes s \<or> ear > OPEN_THRESHOLD)
     \<and> isChallengeProcessing s'
         = ((hasDetectedOpenEyes s \<or> ear > OPEN_THRESHOLD) \<and> ear < blinkEARThreshold (config s))
     \<and> (SetTimeout 300 \<in> set a) = isChallengeProcessing s'"
    and "currentChallenge s' = Some BLINK" and "config s' = config s"
proof -
  from assms(5) obtain landmarks others where f: "faces = Some (landmarks # others)"
    by (auto simp add: face_cases)
  from assms(1,2,3) f obtain s1 passed progress rawValue
    where sw: "challengeSwitch landmarks s = Inr (s1, passed, progress, rawValue)"
    by (auto simp add: onFaceMeshResults_def processChallenge_def split: sum.splits)
  with blinkSwitch [OF assms(4) f] obtain ear where ear: "frameEAR faces = Some ear"
    and s1: "s1 = s\<lparr>hasDetectedOpenEyes := hasDetectedOpenEyes s \<or> ear > OPEN_THRESHOLD\<rparr>"
    and passed: "passed = ((hasDetectedOpenEyes s \<or> ear > OPEN_THRESHOLD)
        \<and> ear < blinkEARThreshold (config s))"
    by (auto split: option.splits)
  let ?p = "OnProgress (max 0 (min progress 1)) rawValue"
  from assms(1,2,3) f sw
  have "(passed \<and> s' = s1\<lparr>isChallengeProcessing := True\<rparr>
           \<and> a = drawDebugOverlay faces s @ [?p, SetTimeout 300])
      \<or> (\<not> passed \<and> s' = s1 \<and> a = drawDebugOverlay faces s @ [?p])
      \<or> (\<not> passed \<and> s' = fst (stop s1)
           \<and> a = drawDebugOverlay faces s @ ?p # snd (stop s1)
               @ [OnFailure CHALLENGE_TIMEOUT
                    (''Challenge timed out: '' @ challengeName (currentChallenge s1))])"
    by (auto simp add: onFaceMeshResults_def processChallenge_def failChallenge_def Let_def
        case_prod_beta split: if_splits)
  then have props: "hasDetectedOpenEyes s' = hasDetectedOpenEyes s1"
    "isChallengeProcessing s' = passed" "(SetTimeout 300 \<in> set a) = passed"
    "currentChallenge s' = currentChallenge s1" "config s' = config s1"
    using assms(3) s1
    by (auto simp add: stop_fields stop_no_timeout drawDebugOverlay_def)
  from props ear s1 passed
  show "\<exists>ear. frameEAR faces = Some ear
     \<and> hasDetectedOpenEyes s' = (hasDetectedOpenEyes s \<or> ear > OPEN_THRESHOLD)
     \<and> isChallengeProcessing s'
         = ((hasDetectedOpenEyes s \<or> ear > OPEN_THRESHOLD) \<and> ear < blinkEARThreshold (config s))
     \<and> (SetTimeout 300 \<in> set a) = isChallengeProcessing s'"
    by simp
  from props s1 assms(4) show "currentChallenge s' = Some BLINK" and "config s' = config s"
    by simp_all
qed

lemma results_blink_total:
  assumes "\<not> isStopped s" and "\<not> isChallengeProcessing s"
    and "currentChallenge s = Some BLINK" and "frameEAR faces = Some ear"
  shows "\<exists>s' a. onFaceMeshResults now faces s = Inr (s', a)"
proof -
  from frameEAR_face [OF assms(4)] obtain landmarks others
    where f: "faces = Some (landmarks # others)"
    by (auto simp add: face_cases)
  from blinkSwitch [OF assms(3) f] assms(4) obtain r
    where "challengeSwitch landmarks s = Inr r"
    by simp
  with assms(1,2) f show ?thesis
    by (cases r) (simp add: onFaceMeshResults_def processChallenge_def failChallenge_def
        Let_def case_prod_beta)
qed

lemma results_noFace_total:
  assumes "\<not> isStopped s" and "noFace faces"
  shows "\<exists>s' a. onFaceMeshResults now faces s = Inr (s', a)"
  using assms
  by (auto simp add: noFace_cases onFaceMeshResults_def failChallenge_def Let_def case_prod_beta)

text \<open>The callback never restarts a session and never leaves the settling state.\<close>

lemma results_monotone:
  assumes "onFaceMeshResults now faces s = Inr (s', a)"
  shows "isStopped s \<Longrightarrow> isStopped s'"
    and "isChallengeProcessing s \<Longrightarrow> isChallengeProcessing s'"
    and "currentChallenge s' = currentChallenge s" and "config s' = config s"
proof -
  have all: "(isStopped s \<longrightarrow> isStopped s')
      \<and> (isChallengeProcessing s \<longrightarrow> isChallengeProcessing s')
      \<and> currentChallenge s' = currentChallenge s \<and> config s' = config s"
  proof (cases "isStopped s")
    case True
    with assms show ?thesis by (simp add: results_stopped)
  next
    case running: False
    show ?thesis
    proof (cases "noFace faces")
      case True
      from results_noFace [OF assms running True] running show ?thesis by simp
    next
      case False
      then obtain landmarks others where f: "faces = Some (landmarks # others)"
        by (auto simp add: face_cases)
      show ?thesis
      proof (cases "isChallengeProcessing s")
        case True
        with assms running f show ?thesis
          by (auto simp add: onFaceMeshResults_def processChallenge_def)
      next
        case np: False
        from assms running f np obtain s1 passed progress rawValue
          where sw: "challengeSwitch landmarks s = Inr (s1, passed, progress, rawValue)"
          by (auto simp add: onFaceMeshResults_def processChallenge_def split: sum.splits)
        from challengeSwitch_keeps [OF sw]
        have k: "currentChallenge s1 = currentChallenge s" "config s1 = config s"
          by auto
        from assms running f np sw
        have "s' = s1\<lparr>isChallengeProcessing := True\<rparr> \<or> s' = s1 \<or> s' = fst (stop s1)"
          by (auto simp add: onFaceMeshResults_def processChallenge_def failChallenge_def
              Let_def case_prod_beta split: if_splits)
        with k running np show ?thesis
          by (auto simp add: stop_fields)
      qed
    qed
  qed
  from all show "isStopped s \<Longrightarrow> isStopped s'"
    and "isChallengeProcessing s \<Longrightarrow> isChallengeProcessing s'"
    and "currentChallenge s' = currentChallenge s" and "config s' = config s"
    by simp_all
qed

lemma feed_Cons:
  assumes "feed ((now, faces) # frames) s = Inr (s2, a)"
  obtains s1 a1 a2 where "onFaceMeshResults now faces s = Inr (s1, a1)"
    and "feed frames s1 = Inr (s2, a2)" and "a = a1 @ a2"
  using assms by (auto split: sum.splits)

lemma feed_monotone:
  assumes "feed frames s = Inr (s', a)"
  shows "(isStopped s \<longrightarrow> isStopped s')
     \<and> (isChallengeProcessing s \<longrightarrow> isChallengeProcessing s')
     \<and> currentChallenge s' = currentChallenge s \<and> config s' = config s"
  using assms
proof (induction frames arbitrary: s a)
  case Nil
  then show ?case by simp
next
  case (Cons frame frames)
  obtain now faces where frame: "frame = (now, faces)" by (cases frame)
  from Cons.prems obtain s1 a1 a2
    where r: "onFaceMeshResults now faces s = Inr (s1, a1)" and f: "feed frames s1 = Inr (s', a2)"
    unfolding frame by (rule feed_Cons)
  from Cons.IH [OF f] results_monotone [OF r] show ?case by simp
qed

lemma openObserved_Nil: "\<not> openObserved []"
  by (simp add: openObserved_def)

lemma openObserved_Cons:
  "openObserved ((t, faces) # rest) \<longleftrightarrow>
     ((\<exists>ear. frameEAR faces = Some ear \<and> ear > OPEN_THRESHOLD)
        \<and> list_all (\<lambda>(t', faces'). \<not> noFace faces') rest)
     \<or> openObserved rest"
  unfolding openObserved_def
  by (auto simp add: Cons_eq_append_conv) (metis append_Cons)+

text \<open>
  The latch after a sequence of frames that were all evaluated, on a session that awaits
  Blink: it is set exactly when it was set before and every frame had a face, or an open
  observation is still in force.
\<close>

lemma latch_after_feed:
  assumes "feed frames s = Inr (s1, a1)" and "\<not> isStopped s1" and "\<not> isChallengeProcessing s1"
    and "currentChallenge s = Some BLINK"
  shows "hasDetectedOpenEyes s1 \<longleftrightarrow>
     (hasDetectedOpenEyes s \<and> list_all (\<lambda>(t, faces). \<not> noFace faces) frames)
     \<or> openObserved frames"
  using assms
proof (induction frames arbitrary: s a1)
  case Nil
  then show ?case by (simp add: openObserved_Nil)
next
  case (Cons frame frames)
  obtain now faces where frame: "frame = (now, faces)" by (cases frame)
  from Cons.prems(1) obtain s' a' a''
    where r: "onFaceMeshResults now faces s = Inr (s', a')" and f: "feed frames s' = Inr (s1, a'')"
    unfolding frame by (rule feed_Cons)
  from feed_monotone [OF f] Cons.prems(2,3)
  have mid: "\<not> isStopped s'" "\<not> isChallengeProcessing s'" by auto
  with results_monotone [OF r]
  have pre: "\<not> isStopped s" "\<not> isChallengeProcessing s" by auto
  from results_monotone(3) [OF r] Cons.prems(4)
  have blink: "currentChallenge s' = Some BLINK" by simp
  note ih = Cons.IH [OF f Cons.prems(2,3) blink]
  show ?case
  proof (cases "noFace faces")
    case True
    from results_noFace(1) [OF r pre(1) True] have "\<not> hasDetectedOpenEyes s'" .
    moreover have "frameEAR faces = None"
      using True frameEAR_face [of faces] by (cases "frameEAR faces") auto
    ultimately show ?thesis
      using ih True by (simp add: frame openObserved_Cons)
  next
    case False
    from results_blink(1) [OF r pre Cons.prems(4) False] obtain ear
      where "frameEAR faces = Some ear"
        and "hasDetectedOpenEyes s' = (hasDetectedOpenEyes s \<or> ear > OPEN_THRESHOLD)"
      by blast
    then show ?thesis
      using ih False by (auto simp add: frame openObserved_Cons)
  qed
qed

lemma blinkSession_fields:
  "isStopped blinkSession = False" "isChallengeProcessing blinkSession = False"
  "currentChallenge blinkSession = Some BLINK" "hasDetectedOpenEyes blinkSession = False"
  "blinkEARThreshold (config blinkSession) = 1 / 4" "canvasCtx blinkSession = True"
  "challengeTimeout (config blinkSession) = 5000" "lastChallengeTime blinkSession = 1000"
  by (simp_all add: blinkSession_eq currentChallenge_def)

lemma blinkSession_open:
  "feed [(1100, Some [eyesFrame 0.35])] blinkSession =
     Inr (blinkSession\<lparr>hasDetectedOpenEyes := True\<rparr>,
          [ClearRect, DrawDebugOverlay, OnProgress 0 (Some 0.35)])"
  by (simp add: onFaceMeshResults_def processChallenge_def challengeSwitch_def eyesFrame_EAR
      drawDebugOverlay_def blinkSession_fields OPEN_THRESHOLD_def Let_def)

lemma blinkSession_closed_step:
  "onFaceMeshResults t (Some [eyesFrame 0.1]) blinkSession =
     (if t - 1000 > 5000
      then Inr (blinkSession\<lparr>isStopped := True\<rparr>,
                [ClearRect, DrawDebugOverlay, OnProgress 0 (Some 0.1), ClearRect,
                 OnFailure CHALLENGE_TIMEOUT ''Challenge timed out: BLINK''])
      else Inr (blinkSession, [ClearRect, DrawDebugOverlay, OnProgress 0 (Some 0.1)]))"
  by (simp add: onFaceMeshResults_def processChallenge_def challengeSwitch_def eyesFrame_EAR
      drawDebugOverlay_def currentChallenge_def OPEN_THRESHOLD_def Let_def blinkSession_eq
      failChallenge_def stop_def)

lemma blinkSession_closed:
  "feed [(1100, Some [eyesFrame 0.1])] blinkSession =
     Inr (blinkSession, [ClearRect, DrawDebugOverlay, OnProgress 0 (Some 0.1)])"
  by (simp add: blinkSession_closed_step)

lemma blinkSession_closed_1200:
  "onFaceMeshResults 1200 (Some [eyesFrame 0.1]) blinkSession
     = Inr (blinkSession, [ClearRect, DrawDebugOverlay, OnProgress 0 (Some 0.1)])"
  by (simp add: blinkSession_closed_step)

lemma blinkSession_open_noFace:
  "feed [(1100, Some [eyesFrame 0.35]), (1150, None)] blinkSession
     = Inr (blinkSession, [ClearRect, DrawDebugOverlay, OnProgress 0 (Some 0.35)])"
  by (simp add: onFaceMeshResults_def processChallenge_def challengeSwitch_def eyesFrame_EAR
      drawDebugOverlay_def currentChallenge_def OPEN_THRESHOLD_def Let_def blinkSession_eq)

lemma eyesFrame_values:
  "frameEAR (Some [eyesFrame 0.35]) = Some 0.35" "frameEAR (Some [eyesFrame 0.1]) = Some 0.1"
  by (simp_all add: eyesFrame_frameEAR)

text \<open>
  Claim C2 as stated fails when a frame without a face comes between the open and the
  closed observation: after the frames with EAR 0.35 and then no face, both evaluated in
  one Blink challenge, a frame with EAR 0.10 does not pass, although an earlier frame of
  the challenge had its EAR above 0.3 and 0.10 is below the closed threshold 0.25.
\<close>

theorem blink_noFace_counterexample:
  "feed [(1100, Some [eyesFrame 0.35]), (1150, None)] blinkSession
     = Inr (blinkSession, [ClearRect, DrawDebugOverlay, OnProgress 0 (Some 0.35)])
   \<and> frameEAR (Some [eyesFrame 0.35]) = Some 0.35 \<and> (0.35 :: real) > 0.3
   \<and> frameEAR (Some [eyesFrame 0.1]) = Some 0.1
   \<and> (0.1 :: real) < blinkEARThreshold (config blinkSession)
   \<and> onFaceMeshResults 1200 (Some [eyesFrame 0.1]) blinkSession
       = Inr (blinkSession, [ClearRect, DrawDebugOverlay, OnProgress 0 (Some 0.1)])
   \<and> \<not> isChallengeProcessing blinkSession"
proof (intro conjI)
  show "(0.35 :: real) > 0.3" by simp
  show "(0.1 :: real) < blinkEARThreshold (config blinkSession)"
    by (simp add: blinkSession_fields)
  show "\<not> isChallengeProcessing blinkSession"
    by (simp add: blinkSession_fields)
qed (rule blinkSession_open_noFace eyesFrame_values blinkSession_closed_1200)+

text \<open>
  Claim C2, amended. During a Blink challenge that began with the latch clear, after
  frames that were all evaluated without passing or failing, a frame with a face passes
  (the engine enters the settling state and sets the 300 ms timer) if and only if its
  \<open>min(leftEAR, rightEAR)\<close> is below \<open>blinkEARThreshold\<close> and either that value is
  above the open threshold 0.3, or some earlier frame of the challenge had a value above
  0.3 and every frame after that one had a face.
\<close>

theorem blink_pass_condition:
  assumes "currentChallenge s = Some BLINK" and "\<not> hasDetectedOpenEyes s"
    and "feed frames s = Inr (s1, a1)" and "\<not> isStopped s1" and "\<not> isChallengeProcessing s1"
    and "frameEAR faces = Some ear"
  shows "\<exists>s2 a2. onFaceMeshResults now faces s1 = Inr (s2, a2)
     \<and> (isChallengeProcessing s2 \<and> SetTimeout 300 \<in> set a2 \<longleftrightarrow>
          ear < blinkEARThreshold (config s)
          \<and> (ear > 0.3
              \<or> (\<exists>pre t faces' ear' post.
                    frames = pre @ (t, faces') # post \<and> frameEAR faces' = Some ear'
                    \<and> ear' > 0.3 \<and> list_all (\<lambda>(t', faces''). \<not> noFace faces'') post)))"
proof -
  from feed_monotone [OF assms(3)] assms(1)
  have blink: "currentChallenge s1 = Some BLINK" and cfg: "config s1 = config s" by simp_all
  from results_blink_total [OF assms(4,5) blink assms(6)] obtain s2 a2
    where r: "onFaceMeshResults now faces s1 = Inr (s2, a2)" by blast
  from results_blink(1) [OF r assms(4,5) blink frameEAR_face [OF assms(6)]] assms(6)
  have p: "isChallengeProcessing s2
      = ((hasDetectedOpenEyes s1 \<or> ear > OPEN_THRESHOLD) \<and> ear < blinkEARThreshold (config s1))"
    and t: "(SetTimeout 300 \<in> set a2) = isChallengeProcessing s2"
    by auto
  from latch_after_feed [OF assms(3,4,5,1)] assms(2)
  have l: "hasDetectedOpenEyes s1 = openObserved frames" by simp
  have "isChallengeProcessing s2 \<and> SetTimeout 300 \<in> set a2 \<longleftrightarrow>
      ear < blinkEARThreshold (config s) \<and> (ear > 0.3 \<or> openObserved frames)"
    using p t l cfg by (auto simp add: OPEN_THRESHOLD_def)
  with r show ?thesis
    unfolding openObserved_def OPEN_THRESHOLD_def by blast
qed

theorem blink_pass_condition_witness:
  "(\<exists>s2 a2. onFaceMeshResults 1200 (Some [eyesFrame 0.1]) (blinkSession\<lparr>hasDetectedOpenEyes := True\<rparr>)
       = Inr (s2, a2) \<and> isChallengeProcessing s2 \<and> SetTimeout 300 \<in> set a2)
   \<and> (\<exists>s2 a2. onFaceMeshResults 1200 (Some [eyesFrame 0.1]) blinkSession = Inr (s2, a2)
       \<and> \<not> (isChallengeProcessing s2 \<and> SetTimeout 300 \<in> set a2))"
proof -
  note e = eyesFrame_values(2,1)
  let ?opened = "blinkSession\<lparr>hasDetectedOpenEyes := True\<rparr>"
  have h1: "\<not> isStopped ?opened" "\<not> isChallengeProcessing ?opened"
    by (simp_all add: blinkSession_fields)
  have h2: "\<not> isStopped blinkSession" "\<not> isChallengeProcessing blinkSession"
    "currentChallenge blinkSession = Some BLINK" "\<not> hasDetectedOpenEyes blinkSession"
    by (simp_all add: blinkSession_fields)
  have below: "(0.1 :: real) < blinkEARThreshold (config blinkSession)"
    by (simp add: blinkSession_fields)
  have "[(1100 :: real, Some [eyesFrame 0.35])] = [] @ (1100, Some [eyesFrame 0.35]) # []"
    by simp
  moreover have "(0.35 :: real) > 0.3" by simp
  moreover have "list_all (\<lambda>(t', faces''). \<not> noFace faces'') ([] :: (real \<times> point list list option) list)"
    by simp
  ultimately have opened: "\<exists>pre t faces' ear' post.
      [(1100 :: real, Some [eyesFrame 0.35])] = pre @ (t, faces') # post
      \<and> frameEAR faces' = Some ear' \<and> ear' > 0.3
      \<and> list_all (\<lambda>(t', faces''). \<not> noFace faces'') post"
    using e(2) by blast
  have never: "\<not> (\<exists>pre t faces' ear' post.
      [(1100 :: real, Some [eyesFrame 0.1])] = pre @ (t, faces') # post
      \<and> frameEAR faces' = Some ear' \<and> ear' > 0.3
      \<and> list_all (\<lambda>(t', faces''). \<not> noFace faces'') post)"
  proof
    assume "\<exists>pre t faces' ear' post.
      [(1100 :: real, Some [eyesFrame 0.1])] = pre @ (t, faces') # post
      \<and> frameEAR faces' = Some ear' \<and> ear' > 0.3
      \<and> list_all (\<lambda>(t', faces''). \<not> noFace faces'') post"
    then obtain pre t faces' ear' post
      where d: "[(1100 :: real, Some [eyesFrame 0.1])] = pre @ (t, faces') # post"
        and v: "frameEAR faces' = Some ear'" and o: "ear' > 0.3"
      by blast
    from d have "faces' = Some [eyesFrame 0.1]"
      by (cases pre) simp_all
    with v e(1) have "ear' = 0.1" by simp
    with o show False by simp
  qed
  from blink_pass_condition [OF h2(3,4) blinkSession_open h1 e(1), of 1200] obtain s2 a2
    where "onFaceMeshResults 1200 (Some [eyesFrame 0.1]) ?opened = Inr (s2, a2)"
      and "isChallengeProcessing s2 \<and> SetTimeout 300 \<in> set a2 \<longleftrightarrow>
        0.1 < blinkEARThreshold (config blinkSession)
        \<and> (0.1 > (0.3 :: real)
            \<or> (\<exists>pre t faces' ear' post.
                  [(1100 :: real, Some [eyesFrame 0.35])] = pre @ (t, faces') # post
                  \<and> frameEAR faces' = Some ear' \<and> ear' > 0.3
                  \<and> list_all (\<lambda>(t', faces''). \<not> noFace faces'') post))"
    by blast
  with below opened
  have first: "\<exists>s2 a2. onFaceMeshResults 1200 (Some [eyesFrame 0.1]) ?opened = Inr (s2, a2)
      \<and> isChallengeProcessing s2 \<and> SetTimeout 300 \<in> set a2"
    by blast
  from blink_pass_condition [OF h2(3,4) blinkSession_closed h2(1,2) e(1), of 1200] obtain s2 a2
    where "onFaceMeshResults 1200 (Some [eyesFrame 0.1]) blinkSession = Inr (s2, a2)"
      and "isChallengeProcessing s2 \<and> SetTimeout 300 \<in> set a2 \<longleftrightarrow>
        0.1 < blinkEARThreshold (config blinkSession)
        \<and> (0.1 > (0.3 :: real)
            \<or> (\<exists>pre t faces' ear' post.
                  [(1100 :: real, Some [eyesFrame 0.1])] = pre @ (t, faces') # post
                  \<and> frameEAR faces' = Some ear' \<and> ear' > 0.3
                  \<and> list_all (\<lambda>(t', faces''). \<not> noFace faces'') post))"
    by blast
  moreover have "\<not> (0.1 > (0.3 :: real))" by simp
  ultimately
  have second: "\<exists>s2 a2. onFaceMeshResults 1200 (Some [eyesFrame 0.1]) blinkSession = Inr (s2, a2)
      \<and> \<not> (isChallengeProcessing s2 \<and> SetTimeout 300 \<in> set a2)"
    using never by blast
  from first second show ?thesis by (rule conjI)
qed

lemma blinkSession_start:
  "start 1000 (fixedDraws [3 / 4, 5 / 6, 3 / 4]) True True 1000 4 1 (readyEngine DEFAULT_CONFIG)
     = Inr (blinkSession, [OnChallengeChanged BLINK, FaceMeshSend])"
  by (simp add: blinkSession_eq start_def readyEngine_def load_def newEngine_def
      DEFAULT_CONFIG_def generateChallenges_def shuffleLoop.simps fixedDraws_def
      detectionLoop_def detectionLoopResume_def Let_def js_rem_def)

lemma blinkSession_opened_closed:
  "onFaceMeshResults 1200 (Some [eyesFrame 0.1]) (blinkSession\<lparr>hasDetectedOpenEyes := True\<rparr>)
     = Inr (blinkSession\<lparr>hasDetectedOpenEyes := True, isChallengeProcessing := True\<rparr>,
            [ClearRect, DrawDebugOverlay, OnProgress 0 (Some 0.1), SetTimeout 300])"
  by (simp add: onFaceMeshResults_def processChallenge_def challengeSwitch_def eyesFrame_EAR
      drawDebugOverlay_def blinkSession_fields OPEN_THRESHOLD_def Let_def)

lemma moveToNextChallenge_latch:
  "\<not> hasDetectedOpenEyes (fst (moveToNextChallenge now prediction s))"
  by (simp add: moveToNextChallenge_def completeLiveness_def failChallenge_def Let_def
      case_prod_beta stop_fields split: sum.splits)

lemma start_latch:
  "start now rnd video canvas now2 readyState rafId s = Inr (s', a) \<Longrightarrow> \<not> hasDetectedOpenEyes s'"
  by (auto simp add: start_def detectionLoop_def detectionLoopResume_def Let_def
      split: if_splits)

text \<open>
  Claim C10. On a running session every frame without a face is handled without error
  and clears the latch; the latch is also clear after every move to the next challenge
  and after every \<open>start\<close>. Therefore, in a Blink challenge that began with the latch
  clear, a frame passes (moves the engine into the settling state) only if its EAR is
  below the closed threshold and an open observation (EAR above 0.3) was made on that
  frame or on an earlier frame of the same challenge that is followed only by frames with
  a face.
\<close>

theorem blink_latch_resets:
  "(\<not> isStopped s \<and> noFace faces \<longrightarrow>
      (\<exists>s' a. onFaceMeshResults now faces s = Inr (s', a) \<and> \<not> hasDetectedOpenEyes s'))
   \<and> \<not> hasDetectedOpenEyes (fst (moveToNextChallenge now prediction s))
   \<and> (start now1 rnd video canvas now2 readyState rafId loaded = Inr (started, a0) \<longrightarrow>
        \<not> hasDetectedOpenEyes started)
   \<and> (currentChallenge s0 = Some BLINK \<and> \<not> hasDetectedOpenEyes s0
        \<and> feed frames s0 = Inr (s1, a1) \<and> onFaceMeshResults t current s1 = Inr (s2, a2)
        \<and> \<not> isChallengeProcessing s1 \<and> isChallengeProcessing s2 \<longrightarrow>
        (\<exists>ear. frameEAR current = Some ear \<and> ear < blinkEARThreshold (config s0)
           \<and> (ear > 0.3
               \<or> (\<exists>pre t' faces' ear' post.
                     frames = pre @ (t', faces') # post \<and> frameEAR faces' = Some ear'
                     \<and> ear' > 0.3 \<and> list_all (\<lambda>(t'', faces''). \<not> noFace faces'') post))))"
proof (intro conjI impI)
  assume h: "\<not> isStopped s \<and> noFace faces"
  then obtain s' a where r: "onFaceMeshResults now faces s = Inr (s', a)"
    using results_noFace_total by blast
  from results_noFace(1) [OF r] h have "\<not> hasDetectedOpenEyes s'" by simp
  with r show "\<exists>s' a. onFaceMeshResults now faces s = Inr (s', a) \<and> \<not> hasDetectedOpenEyes s'"
    by blast
next
  show "\<not> hasDetectedOpenEyes (fst (moveToNextChallenge now prediction s))"
    by (rule moveToNextChallenge_latch)
next
  assume "start now1 rnd video canvas now2 readyState rafId loaded = Inr (started, a0)"
  then show "\<not> hasDetectedOpenEyes started" by (rule start_latch)
next
  assume h: "currentChallenge s0 = Some BLINK \<and> \<not> hasDetectedOpenEyes s0
        \<and> feed frames s0 = Inr (s1, a1) \<and> onFaceMeshResults t current s1 = Inr (s2, a2)
        \<and> \<not> isChallengeProcessing s1 \<and> isChallengeProcessing s2"
  then have f: "feed frames s0 = Inr (s1, a1)"
    and r: "onFaceMeshResults t current s1 = Inr (s2, a2)"
    and np: "\<not> isChallengeProcessing s1" and p: "isChallengeProcessing s2"
    and b0: "currentChallenge s0 = Some BLINK" and l0: "\<not> hasDetectedOpenEyes s0"
    by simp_all
  have running: "\<not> isStopped s1"
    using r np p by (auto simp add: results_stopped)
  have face: "\<not> noFace current"
    using results_noFace(2) [OF r running] np p by auto
  from feed_monotone [OF f] b0
  have blink: "currentChallenge s1 = Some BLINK" and cfg: "config s1 = config s0" by simp_all
  from results_blink(1) [OF r running np blink face] p obtain ear
    where ear: "frameEAR current = Some ear"
      and pass: "(hasDetectedOpenEyes s1 \<or> ear > OPEN_THRESHOLD) \<and> ear < blinkEARThreshold (config s1)"
    by auto
  from latch_after_feed [OF f running np b0] l0
  have "hasDetectedOpenEyes s1 = openObserved frames" by simp
  with pass cfg have "ear < blinkEARThreshold (config s0) \<and> (ear > 0.3 \<or> openObserved frames)"
    by (auto simp add: OPEN_THRESHOLD_def)
  with ear show "\<exists>ear. frameEAR current = Some ear \<and> ear < blinkEARThreshold (config s0)
           \<and> (ear > 0.3
               \<or> (\<exists>pre t' faces' ear' post.
                     frames = pre @ (t', faces') # post \<and> frameEAR faces' = Some ear'
                     \<and> ear' > 0.3 \<and> list_all (\<lambda>(t'', faces''). \<not> noFace faces'') post))"
    unfolding openObserved_def OPEN_THRESHOLD_def by blast
qed

theorem blink_latch_resets_witness:
  "(\<exists>s' a. onFaceMeshResults 1150 None (blinkSession\<lparr>hasDetectedOpenEyes := True\<rparr>) = Inr (s', a)
       \<and> \<not> hasDetectedOpenEyes s')
   \<and> \<not> hasDetectedOpenEyes blinkSession
   \<and> (\<exists>ear. frameEAR (Some [eyesFrame 0.1]) = Some ear
        \<and> ear < blinkEARThreshold (config blinkSession)
        \<and> (ear > 0.3
            \<or> (\<exists>pre t' faces' ear' post.
                  [(1100 :: real, Some [eyesFrame 0.35])] = pre @ (t', faces') # post
                  \<and> frameEAR faces' = Some ear' \<and> ear' > 0.3
                  \<and> list_all (\<lambda>(t'', faces''). \<not> noFace faces'') post)))"
proof -
  let ?opened = "blinkSession\<lparr>hasDetectedOpenEyes := True\<rparr>"
  let ?passed = "blinkSession\<lparr>hasDetectedOpenEyes := True, isChallengeProcessing := True\<rparr>"
  note th = blink_latch_resets [where s = ?opened and faces = None and now = 1150
      and rnd = "fixedDraws [3 / 4, 5 / 6, 3 / 4]" and video = True and canvas = True
      and ?now1.0 = 1000 and loaded = "readyEngine DEFAULT_CONFIG" and ?now2.0 = 1000 and readyState = 4 and rafId = 1
      and started = blinkSession and ?a0.0 = "[OnChallengeChanged BLINK, FaceMeshSend]"
      and ?s0.0 = blinkSession and frames = "[(1100, Some [eyesFrame 0.35])]"
      and ?s1.0 = ?opened and ?a1.0 = "[ClearRect, DrawDebugOverlay, OnProgress 0 (Some 0.35)]"
      and t = 1200 and current = "Some [eyesFrame 0.1]" and ?s2.0 = ?passed
      and ?a2.0 = "[ClearRect, DrawDebugOverlay, OnProgress 0 (Some 0.1), SetTimeout 300]"]
  have a: "\<not> isStopped ?opened \<and> noFace None"
    by (simp add: blinkSession_fields noFace_def)
  have d: "currentChallenge blinkSession = Some BLINK \<and> \<not> hasDetectedOpenEyes blinkSession
      \<and> feed [(1100, Some [eyesFrame 0.35])] blinkSession
          = Inr (?opened, [ClearRect, DrawDebugOverlay, OnProgress 0 (Some 0.35)])
      \<and> onFaceMeshResults 1200 (Some [eyesFrame 0.1]) ?opened
          = Inr (?passed, [ClearRect, DrawDebugOverlay, OnProgress 0 (Some 0.1), SetTimeout 300])
      \<and> \<not> isChallengeProcessing ?opened \<and> isChallengeProcessing ?passed"
    using blinkSession_open blinkSession_opened_closed by (simp add: blinkSession_fields)
  from th a have one: "\<exists>s' a. onFaceMeshResults 1150 None ?opened = Inr (s', a)
       \<and> \<not> hasDetectedOpenEyes s'"
    by blast
  from th blinkSession_start have two: "\<not> hasDetectedOpenEyes blinkSession"
    by blast
  from th d have three: "\<exists>ear. frameEAR (Some [eyesFrame 0.1]) = Some ear
        \<and> ear < blinkEARThreshold (config blinkSession)
        \<and> (ear > 0.3
            \<or> (\<exists>pre t' faces' ear' post.
                  [(1100 :: real, Some [eyesFrame 0.35])] = pre @ (t', faces') # post
                  \<and> frameEAR faces' = Some ear' \<and> ear' > 0.3
                  \<and> list_all (\<lambda>(t'', faces''). \<not> noFace faces'') post))"
    by blast
  from one two three show ?thesis by blast
qed

subsection \<open>Whole sessions\<close>

lemma stop_quiet:
  "filter isChallengeChanged (snd (stop s)) = []" "filter isSuccess (snd (stop s)) = []"
  "count_list (snd (stop s)) (SetTimeout 300) = 0"
  by (simp_all add: stop_def Let_def split: option.splits)

lemma overlay_quiet:
  "filter isChallengeChanged (drawDebugOverlay faces s) = []"
  "filter isSuccess (drawDebugOverlay faces s) = []"
  "count_list (drawDebugOverlay faces s) (SetTimeout 300) = 0"
  by (simp_all add: drawDebugOverlay_def)

text \<open>What the results callback can do to the state machine: nothing, or one pass.\<close>

lemma results_effect:
  assumes "onFaceMeshResults now faces s = Inr (s', a)"
  shows "challenges s' = challenges s \<and> currentChallengeIndex s' = currentChallengeIndex s
     \<and> filter isChallengeChanged a = [] \<and> filter isSuccess a = []
     \<and> ((isChallengeProcessing s' = isChallengeProcessing s
           \<and> count_list a (SetTimeout 300) = 0)
          \<or> (\<not> isChallengeProcessing s \<and> isChallengeProcessing s'
              \<and> count_list a (SetTimeout 300) = 1))"
proof (cases "isStopped s")
  case True
  with assms show ?thesis by (simp add: results_stopped)
next
  case running: False
  show ?thesis
  proof (cases "noFace faces")
    case True
    let ?s0 = "s\<lparr>hasDetectedOpenEyes := False\<rparr>"
    from assms running True
    have "(s' = ?s0 \<and> a = drawDebugOverlay faces s)
      \<or> (s' = fst (stop ?s0) \<and> a = drawDebugOverlay faces s @ snd (stop ?s0)
            @ [OnFailure FACE_NOT_FOUND ''Could not detect a face.''])"
      by (auto simp add: noFace_cases onFaceMeshResults_def failChallenge_def Let_def
          case_prod_beta split: if_splits)
    then show ?thesis
      by (auto simp add: stop_fields stop_quiet overlay_quiet)
  next
    case False
    then obtain landmarks others where f: "faces = Some (landmarks # others)"
      by (auto simp add: face_cases)
    show ?thesis
    proof (cases "isChallengeProcessing s")
      case True
      with assms running f show ?thesis
        by (auto simp add: onFaceMeshResults_def processChallenge_def overlay_quiet)
    next
      case np: False
      from assms running f np obtain s1 passed progress rawValue
        where sw: "challengeSwitch landmarks s = Inr (s1, passed, progress, rawValue)"
        by (auto simp add: onFaceMeshResults_def processChallenge_def split: sum.splits)
      from challengeSwitch_keeps [OF sw]
      have k: "challenges s1 = challenges s" "currentChallengeIndex s1 = currentChallengeIndex s"
        "isChallengeProcessing s1 = isChallengeProcessing s"
        by auto
      let ?p = "OnProgress (max 0 (min progress 1)) rawValue"
      from assms running f np sw
      have "(s' = s1\<lparr>isChallengeProcessing := True\<rparr>
             \<and> a = drawDebugOverlay faces s @ [?p, SetTimeout 300])
        \<or> (s' = s1 \<and> a = drawDebugOverlay faces s @ [?p])
        \<or> (s' = fst (stop s1)
             \<and> a = drawDebugOverlay faces s @ ?p # snd (stop s1)
                 @ [OnFailure CHALLENGE_TIMEOUT
                      (''Challenge timed out: '' @ challengeName (currentChallenge s1))])"
        by (auto simp add: onFaceMeshResults_def processChallenge_def failChallenge_def Let_def
            case_prod_beta split: if_splits)
      with k np show ?thesis
        by (auto simp add: stop_fields stop_quiet overlay_quiet)
    qed
  qed
qed

text \<open>The settle timer, on a session that can still advance.\<close>

lemma timer_advances:
  assumes "currentChallengeIndex s + 1 < length (challenges s)"
  shows "moveToNextChallenge now prediction s =
     (s\<lparr>currentChallengeIndex := currentChallengeIndex s + 1, hasDetectedOpenEyes := False,
        lastChallengeTime := now, isChallengeProcessing := False\<rparr>,
      [OnChallengeChanged (challenges s ! (currentChallengeIndex s + 1))])"
  using assms by (simp add: moveToNextChallenge_def Let_def)

lemma timer_completes:
  assumes "currentChallengeIndex s + 1 \<ge> length (challenges s)"
  shows "moveToNextChallenge now (Inr raw) s =
     (fst (stop (s\<lparr>currentChallengeIndex := currentChallengeIndex s + 1,
                     hasDetectedOpenEyes := False\<rparr>)),
      snd (stop (s\<lparr>currentChallengeIndex := currentChallengeIndex s + 1,
                     hasDetectedOpenEyes := False\<rparr>))
      @ [OnChallengeChanged PROCESSING, OnSuccess (normalizedTensor raw)])"
  using assms by (simp add: moveToNextChallenge_def completeLiveness_def Let_def case_prod_beta)

lemma sessionInv_quiet:
  assumes "sessionInv cs raw h acts"
    and "challenges (eng h') = challenges (eng h)"
    and "currentChallengeIndex (eng h') = currentChallengeIndex (eng h)"
    and "isChallengeProcessing (eng h') = isChallengeProcessing (eng h)"
    and "timers h' = timers h"
    and "filter isChallengeChanged a = []" and "filter isSuccess a = []"
    and "count_list a (SetTimeout 300) = 0"
  shows "sessionInv cs raw h' (acts @ a)"
  using assms by (simp add: sessionInv_def)

lemma sessionInv_step:
  assumes inv: "sessionInv cs raw h acts" and i: "\<not> isStart i" "extractionYields raw i"
    and st: "step i h = Inr (h', a)"
  shows "sessionInv cs raw h' (acts @ a)"
proof (cases i)
  case (Load loaded)
  with st have "(h' = h\<lparr>eng := (eng h)\<lparr>isReady := True\<rparr>\<rparr> \<and> a = [OnReady])
      \<or> (h' = h \<and> (\<exists>m. a = [OnFailure MODEL_LOAD_FAILED m]))"
    by (auto simp add: load_def split: sum.splits)
  then show ?thesis
    by (auto intro!: sessionInv_quiet [OF inv])
next
  case (Start now rnd video canvas now2 readyState rafId)
  with i show ?thesis by simp
next
  case Stop
  with st have "h' = h\<lparr>eng := fst (stop (eng h))\<rparr>" "a = snd (stop (eng h))"
    by (auto simp add: case_prod_beta)
  then show ?thesis
    by (auto intro!: sessionInv_quiet [OF inv] simp add: stop_fields stop_quiet)
next
  case (AnimationFrame now readyState rafId)
  with st have "(\<exists>t. h' = h\<lparr>eng := (eng h)\<lparr>lastFrameTime := t\<rparr>\<rparr> \<and> a = [FaceMeshSend])
      \<or> (h' = h\<lparr>eng := (eng h)\<lparr>detectionLoopId := Some rafId\<rparr>\<rparr> \<and> a = [RequestAnimationFrame rafId])
      \<or> (h' = h \<and> a = [])"
    by (auto simp add: detectionLoop_def detectionLoopResume_def Let_def split: if_splits)
  then show ?thesis
    by (auto intro!: sessionInv_quiet [OF inv])
next
  case (SendResolved rafId)
  with st have "h' = h\<lparr>eng := (eng h)\<lparr>detectionLoopId := Some rafId\<rparr>\<rparr>"
    "a = [RequestAnimationFrame rafId]"
    by (auto simp add: detectionLoopResume_def)
  then show ?thesis
    by (auto intro!: sessionInv_quiet [OF inv])
next
  case (Results now faces)
  with st obtain s' where r: "onFaceMeshResults now faces (eng h) = Inr (s', a)"
    and h': "h' = \<lparr>eng = s', timers = timers h + count_list a (SetTimeout 300)\<rparr>"
    by (auto split: sum.splits)
  from results_effect [OF r] inv show ?thesis
    unfolding h' sessionInv_def by auto
next
  case (TimerFired now prediction)
  with i have p: "prediction = Inr raw" by simp
  show ?thesis
  proof (cases "timers h = 0")
    case True
    with st TimerFired inv show ?thesis
      by (auto simp add: sessionInv_def)
  next
    case False
    with inv have settling: "isChallengeProcessing (eng h)" "timers h = 1"
      "currentChallengeIndex (eng h) < 3" "challenges (eng h) = cs" "length cs = 3"
      by (auto simp add: sessionInv_def)
    show ?thesis
    proof (cases "currentChallengeIndex (eng h) + 1 < 3")
      case True
      with settling have "currentChallengeIndex (eng h) + 1 < length (challenges (eng h))"
        by simp
      from timer_advances [OF this] st TimerFired False
      have "h' = \<lparr>eng = (eng h)\<lparr>currentChallengeIndex := currentChallengeIndex (eng h) + 1,
                   hasDetectedOpenEyes := False, lastChallengeTime := now,
                   isChallengeProcessing := False\<rparr>, timers = timers h - 1\<rparr>"
        and "a = [OnChallengeChanged (challenges (eng h) ! (currentChallengeIndex (eng h) + 1))]"
        by auto
      with inv settling True show ?thesis
        by (auto simp add: sessionInv_def take_Suc_conv_app_nth nth_append)
    next
      case last: False
      with settling have idx: "currentChallengeIndex (eng h) = 2" by simp
      with settling have "currentChallengeIndex (eng h) + 1 \<ge> length (challenges (eng h))"
        by simp
      from timer_completes [OF this, of now raw] st TimerFired False p
      have "eng h' = fst (stop ((eng h)\<lparr>currentChallengeIndex := currentChallengeIndex (eng h) + 1,
                     hasDetectedOpenEyes := False\<rparr>))"
        and "timers h' = timers h - 1"
        and "a = snd (stop ((eng h)\<lparr>currentChallengeIndex := currentChallengeIndex (eng h) + 1,
                     hasDetectedOpenEyes := False\<rparr>))
          @ [OnChallengeChanged PROCESSING, OnSuccess (normalizedTensor raw)]"
        by auto
      with inv settling idx show ?thesis
        by (auto simp add: sessionInv_def stop_fields stop_quiet numeral_3_eq_3)
    qed
  qed
qed

lemma run_Cons:
  assumes "run (i # ins) h = Inr (h2, a)"
  obtains h1 a1 a2 where "step i h = Inr (h1, a1)" and "run ins h1 = Inr (h2, a2)"
    and "a = a1 @ a2"
  using assms by (auto split: sum.splits)

lemma sessionInv_run:
  assumes "run ins h = Inr (h', a)" and "sessionInv cs raw h acts"
    and "list_all (\<lambda>i. \<not> isStart i) ins" and "list_all (extractionYields raw) ins"
  shows "sessionInv cs raw h' (acts @ a)"
  using assms
proof (induction ins arbitrary: h a acts)
  case Nil
  then show ?case by simp
next
  case (Cons i ins)
  from Cons.prems(1) obtain h1 a1 a2
    where s: "step i h = Inr (h1, a1)" and r: "run ins h1 = Inr (h', a2)" and a: "a = a1 @ a2"
    by (rule run_Cons)
  from Cons.prems(3,4) have i: "\<not> isStart i" "extractionYields raw i"
    and rest: "list_all (\<lambda>i. \<not> isStart i) ins" "list_all (extractionYields raw) ins"
    by simp_all
  from sessionInv_step [OF Cons.prems(2) i s]
  have "sessionInv cs raw h1 (acts @ a1)" .
  from Cons.IH [OF r this rest] show ?case by (simp add: a)
qed

lemma start_step:
  "step startBlinkSession readyHost
     = Inr (\<lparr>eng = blinkSession, timers = 0\<rparr>, [OnChallengeChanged BLINK, FaceMeshSend])"
  unfolding startBlinkSession_def readyHost_def
  by (simp del: One_nat_def add: blinkSession_start)

lemma passingInputs_body:
  "run (passingInputs raw) \<lparr>eng = blinkSession, timers = 0\<rparr>
     = Inr (completedSession, drop 2 (passingActions raw))"
  by (simp add: passingInputs_def completedSession_def passingActions_def
      onFaceMeshResults_def processChallenge_def challengeSwitch_def
      currentChallenge_def eyesFrame_EAR turnFrame_ratio drawDebugOverlay_def OPEN_THRESHOLD_def
      Let_def blinkSession_eq moveToNextChallenge_def completeLiveness_def stop_def
      failChallenge_def)

lemma lateInputs_body:
  "run (lateInputs raw) \<lparr>eng = blinkSession, timers = 0\<rparr>
     = Inr (completedSession, drop 2 (lateActions raw))"
  by (simp add: lateInputs_def completedSession_def lateActions_def
      onFaceMeshResults_def processChallenge_def challengeSwitch_def
      currentChallenge_def eyesFrame_EAR turnFrame_ratio drawDebugOverlay_def OPEN_THRESHOLD_def
      Let_def blinkSession_eq moveToNextChallenge_def completeLiveness_def stop_def
      failChallenge_def)

lemma passingInputs_run:
  "run (startBlinkSession # passingInputs raw) readyHost = Inr (completedSession, passingActions raw)"
proof -
  have "run (startBlinkSession # passingInputs raw) readyHost
      = Inr (completedSession, [OnChallengeChanged BLINK, FaceMeshSend] @ drop 2 (passingActions raw))"
    by (simp only: run.simps start_step passingInputs_body sum.case prod.case)
  then show ?thesis by (simp add: passingActions_def)
qed

lemma lateInputs_run:
  "run (startBlinkSession # lateInputs raw) readyHost = Inr (completedSession, lateActions raw)"
proof -
  have "run (startBlinkSession # lateInputs raw) readyHost
      = Inr (completedSession, [OnChallengeChanged BLINK, FaceMeshSend] @ drop 2 (lateActions raw))"
    by (simp only: run.simps start_step lateInputs_body sum.case prod.case)
  then show ?thesis by (simp add: lateActions_def)
qed

lemma start_effect:
  assumes "start now rnd video canvas now2 readyState rafId s = Inr (s0, a0)"
  shows "challenges s0 = generateChallenges rnd" and "currentChallengeIndex s0 = 0"
    and "\<not> isChallengeProcessing s0"
    and "filter isChallengeChanged a0 = [OnChallengeChanged (generateChallenges rnd ! 0)]"
    and "filter isSuccess a0 = []" and "count_list a0 (SetTimeout 300) = 0"
  using assms
  by (auto simp add: start_def detectionLoop_def detectionLoopResume_def Let_def
      split: if_splits option.splits)

lemma normalizedTensor_length: "length (normalizedTensor raw) = length raw"
  by (simp add: normalizedTensor_def Let_def)

lemma normalizedTensor_unit:
  assumes "sqrt (\<Sum>x\<leftarrow>raw. x\<^sup>2) > 1 / 10 ^ 6"
  shows "(\<Sum>x\<leftarrow>normalizedTensor raw. x\<^sup>2) = 1"
proof -
  from assms have "tensorNorm raw > 1 / 10 ^ 6" by (simp add: tensorNorm_def)
  from norm_normalized [OF this]
  have "sqrt (\<Sum>x\<leftarrow>normalizedTensor raw. x\<^sup>2) = 1" by (simp add: tensorNorm_def)
  then show ?thesis by simp
qed

text \<open>
  Claim C1 as stated fails on the number of challenge events. In the session that
  passes Blink, TurnLeft and TurnRight in order, with an extraction that succeeds with
  the zero vector of length 128, the engine calls \<open>onChallengeChanged\<close> four times, the
  last time with \<open>PROCESSING\<close>, and the descriptor it reports once has norm 0.
\<close>

theorem session_challenge_events_counterexample:
  "run (startBlinkSession # passingInputs (replicate 128 0)) readyHost
     = Inr (completedSession, passingActions (replicate 128 0))
   \<and> filter isChallengeChanged (passingActions (replicate 128 0))
       = [OnChallengeChanged BLINK, OnChallengeChanged TURN_LEFT,
          OnChallengeChanged TURN_RIGHT, OnChallengeChanged PROCESSING]
   \<and> length (filter isChallengeChanged (passingActions (replicate 128 0))) = 4
   \<and> filter isSuccess (passingActions (replicate 128 0)) = [OnSuccess (replicate 128 0)]
   \<and> tensorNorm (replicate 128 0) = 0"
proof -
  have z: "tensorNorm (replicate 128 0) = 0"
    by (simp add: tensorNorm_def sum_list_replicate)
  then have n: "normalizedTensor (replicate 128 0) = replicate 128 0"
    by (simp add: normalizedTensor_def Let_def)
  show ?thesis
    using passingInputs_run [of "replicate 128 0"] z
    by (simp add: passingActions_def n)
qed

text \<open>
  Claim C1, amended. Take a session started by \<open>start\<close> with no settle timer of an
  earlier session pending, followed by any calls other than another \<open>start\<close>, in which
  three challenge passes are detected, every settle timer has fired, and the extraction
  succeeds with the embedding \<open>raw\<close>. Then the challenge callbacks are exactly four: the
  three generated challenges in their order, then \<open>PROCESSING\<close>. Exactly one success is
  reported; its descriptor has the length of \<open>raw\<close>, and unit norm whenever the norm
  of \<open>raw\<close> exceeds \<open>1e-6\<close>.
\<close>

theorem session_success_events:
  assumes "start now rnd video canvas now2 readyState rafId s = Inr (s0, a0)"
    and "0 \<le> rnd 1 \<and> rnd 1 < 1 \<and> 0 \<le> rnd 2 \<and> rnd 2 < 1"
    and "list_all (\<lambda>i. \<not> isStart i) ins" and "list_all (extractionYields raw) ins"
    and "run ins \<lparr>eng = s0, timers = 0\<rparr> = Inr (h, a)"
    and "count_list a (SetTimeout 300) = 3" and "timers h = 0"
  shows "filter isChallengeChanged (a0 @ a)
       = map OnChallengeChanged (generateChallenges rnd @ [PROCESSING])
     \<and> filter isSuccess (a0 @ a) = [OnSuccess (normalizedTensor raw)]
     \<and> length (normalizedTensor raw) = length raw
     \<and> (sqrt (\<Sum>x\<leftarrow>raw. x\<^sup>2) > 1 / 10 ^ 6 \<longrightarrow> (\<Sum>x\<leftarrow>normalizedTensor raw. x\<^sup>2) = 1)"
proof -
  let ?cs = "generateChallenges rnd"
  note st = start_effect [OF assms(1)]
  have len: "length ?cs = 3"
    using generateChallenges_permutation [of rnd] assms(2) by simp
  then have first: "take 1 (?cs @ [PROCESSING]) = [?cs ! 0]"
    by (cases ?cs) simp_all
  have "sessionInv ?cs raw \<lparr>eng = s0, timers = 0\<rparr> a0"
    using st len first by (simp add: sessionInv_def)
  from sessionInv_run [OF assms(5) this assms(3,4)]
  have inv: "sessionInv ?cs raw h (a0 @ a)" .
  have "count_list (a0 @ a) (SetTimeout 300) = 3"
    using st(6) assms(6) by simp
  with inv assms(7) have idx: "currentChallengeIndex (eng h) = 3"
    by (simp add: sessionInv_def)
  from inv idx len
  have "filter isChallengeChanged (a0 @ a) = map OnChallengeChanged (?cs @ [PROCESSING])"
    and "filter isSuccess (a0 @ a) = [OnSuccess (normalizedTensor raw)]"
    by (simp_all add: sessionInv_def)
  then show ?thesis
    using normalizedTensor_length [of raw] normalizedTensor_unit [of raw] by simp
qed

theorem session_success_events_witness:
  "filter isChallengeChanged (passingActions (3 # 4 # replicate 126 0))
     = [OnChallengeChanged BLINK, OnChallengeChanged TURN_LEFT,
        OnChallengeChanged TURN_RIGHT, OnChallengeChanged PROCESSING]
   \<and> filter isSuccess (passingActions (3 # 4 # replicate 126 0))
     = [OnSuccess (3 / 5 # 4 / 5 # replicate 126 0)]
   \<and> length (normalizedTensor (3 # 4 # replicate 126 0)) = 128
   \<and> (\<Sum>x\<leftarrow>normalizedTensor (3 # 4 # replicate 126 0). x\<^sup>2) = 1"
proof -
  let ?raw = "3 # 4 # replicate 126 (0 :: real)"
  let ?d = "fixedDraws [3 / 4, 5 / 6, 3 / 4]"
  have sq: "(\<Sum>x\<leftarrow>?raw. x\<^sup>2) = 25"
    by (simp add: sum_list_replicate)
  have big: "sqrt (\<Sum>x\<leftarrow>?raw. x\<^sup>2) > 1 / 10 ^ 6"
    by (simp only: sq sqrt_25) simp
  have tn: "tensorNorm ?raw = 5"
    by (simp only: tensorNorm_def sq sqrt_25)
  have n: "normalizedTensor ?raw = 3 / 5 # 4 / 5 # replicate 126 0"
    by (simp add: normalizedTensor_def Let_def tn)
  have draws: "0 \<le> ?d 1 \<and> ?d 1 < 1 \<and> 0 \<le> ?d 2 \<and> ?d 2 < 1"
    by (simp add: fixedDraws_def)
  have gen: "generateChallenges ?d = [BLINK, TURN_LEFT, TURN_RIGHT]"
    using blinkSession_start start_effect(1) blinkSession_eq
    by (metis engine.select_convs(7))
  have ins: "list_all (\<lambda>i. \<not> isStart i) (passingInputs ?raw)"
    "list_all (extractionYields ?raw) (passingInputs ?raw)"
    by (simp_all add: passingInputs_def)
  have cnt: "count_list (drop 2 (passingActions ?raw)) (SetTimeout 300) = 3"
    "timers completedSession = 0"
    by (simp_all add: passingActions_def completedSession_def)
  have whole: "[OnChallengeChanged BLINK, FaceMeshSend] @ drop 2 (passingActions ?raw)
      = passingActions ?raw"
    by (simp add: passingActions_def)
  from session_success_events [OF blinkSession_start draws ins passingInputs_body cnt]
  show ?thesis
    unfolding whole gen using big by (simp add: n)
qed

lemma stop_idempotent:
  "stop (fst (stop s)) = (fst (stop s), if canvasCtx s then [ClearRect] else [])"
  by (simp add: stop_def Let_def)

text \<open>
  Claim C9 fails on the code: \<open>stop\<close> does not cancel the settle timer, and
  \<open>moveToNextChallenge\<close> does not test \<open>isStopped\<close> as the tick and the results
  callback do. In the session below the last challenge is passed, a frame without a face
  then times out and the session fails with \<open>FACE_NOT_FOUND\<close>, and the settle timer
  that was pending still fires: after the failure the engine announces \<open>PROCESSING\<close>
  and reports success.
\<close>

theorem settle_timer_after_failure:
  "run (startBlinkSession # lateInputs raw) readyHost = Inr (completedSession, lateActions raw)
   \<and> filter (\<lambda>x. isFailure x \<or> isSuccess x \<or> isChallengeChanged x) (lateActions raw)
       = [OnChallengeChanged BLINK, OnChallengeChanged TURN_LEFT, OnChallengeChanged TURN_RIGHT,
          OnFailure FACE_NOT_FOUND ''Could not detect a face.'',
          OnChallengeChanged PROCESSING, OnSuccess (normalizedTensor raw)]"
  using lateInputs_run [of raw] by (simp add: lateActions_def)

end
